theory Spec2Isabelle
  imports
    Complex_Main
    "HOL-Library.Multiset"
    "HOL-Library.Char_ord"
    "HOL-Library.List_Lexorder"
    "HOL-Library.Product_Lexorder"
begin

section \<open>Conventions of the embedding\<close>

text \<open>
  The development embeds the highlight scoring and continuous-learning pipeline of the
  Kick clip generator (\<^verbatim>\<open>kick_clip_generator.py\<close>, \<^verbatim>\<open>model_trainer.py\<close>,
  \<^verbatim>\<open>clip_manager.py\<close>, \<^verbatim>\<open>config.py\<close>).

  \<^item> Python floats (times in seconds, scores, feature values) are the reals: no rounding,
    no NaN, no infinity. Python integers are \<open>int\<close>.
  \<^item> A feature dictionary (\<^verbatim>\<open>Dict\<close>) is an association list in insertion order.
  \<^item> Mutation of an object is explicit state passing: a method takes the state and
    returns the new one next to its return value.
  \<^item> An exception is a value; a \<^verbatim>\<open>try/except Exception\<close> is the case distinction
    on it.
  \<^item> What belongs to a library or to the outside world (scikit-learn estimators, ffmpeg
    downloads, feature extraction, the clock) is a parameter.
\<close>

type_synonym Dict = "(string \<times> real) list"

text \<open>\<^verbatim>\<open>features.get(key, default)\<close>\<close>

definition dict_get :: "Dict \<Rightarrow> string \<Rightarrow> real \<Rightarrow> real" where
  "dict_get features key dflt = (case map_of features key of Some v \<Rightarrow> v | None \<Rightarrow> dflt)"


section \<open>The clip store (\<^verbatim>\<open>clip_manager.py\<close>)\<close>

text \<open>
  One row of the SQLite table \<^verbatim>\<open>clips\<close>. The column \<^verbatim>\<open>features\<close> holds the JSON
  text written by \<^verbatim>\<open>register_clip\<close> (\<^verbatim>\<open>json.dumps\<close> of a feature dictionary); the model
  keeps the dictionary. The table is the list of its rows in insertion order; \<^verbatim>\<open>id\<close> is
  its primary key.
\<close>

record ClipRecord =
  id :: int
  filename :: string
  filepath :: string
  start_time :: real
  end_time :: real
  duration :: real
  score :: real
  clip_type :: string
  features :: Dict
  rating :: "int option"
  created_at :: string
  rated_at :: "string option"
  source_url :: "string option"

type_synonym ClipDatabase = "ClipRecord list"

text \<open>The exceptions that the embedded code can raise.\<close>

datatype exn = ZeroDivisionError | OverflowError

text \<open>
  The integers that \<^verbatim>\<open>sqlite3\<close> binds to a statement parameter: the signed 64-bit
  range of an SQLite \<^verbatim>\<open>INTEGER\<close>. Binding any other Python integer raises
  \<^verbatim>\<open>OverflowError\<close>.
\<close>

definition sqlite_integer :: "int \<Rightarrow> bool" where
  "sqlite_integer i = (- (2 ^ 63) \<le> i \<and> i < 2 ^ 63)"

text \<open>
  \<^verbatim>\<open>ClipDatabase.update_rating(clip_id, rating)\<close>. The argument \<open>now\<close> is
  \<^verbatim>\<open>datetime.now().isoformat()\<close>. The rating is tested before the database is
  touched. \<^verbatim>\<open>cursor.execute\<close> stands in a \<^verbatim>\<open>try/finally\<close> without handler: when the
  clip id cannot be bound, its \<^verbatim>\<open>OverflowError\<close> leaves the call and nothing is written.
  The SQL \<^verbatim>\<open>UPDATE ... WHERE id = ?\<close> rewrites every row with that id;
  \<^verbatim>\<open>cursor.rowcount > 0\<close> says whether one was matched.
\<close>

definition update_rating ::
  "string \<Rightarrow> ClipDatabase \<Rightarrow> int \<Rightarrow> int \<Rightarrow> exn + bool \<times> ClipDatabase" where
  "update_rating now db cid r =
     (if \<not> (1 \<le> r \<and> r \<le> 5) then Inr (False, db)
      else if \<not> sqlite_integer cid then Inl OverflowError
      else
        let db' = map (\<lambda>c. if id c = cid then c\<lparr>rating := Some r, rated_at := Some now\<rparr> else c) db;
            rowcount = length (filter (\<lambda>c. id c = cid) db)
        in if rowcount > 0 then Inr (True, db') else Inr (False, db'))"

text \<open>\<^verbatim>\<open>ClipManager.rate_clip\<close> forwards to the database.\<close>

definition rate_clip ::
  "string \<Rightarrow> ClipDatabase \<Rightarrow> int \<Rightarrow> int \<Rightarrow> exn + bool \<times> ClipDatabase" where
  "rate_clip now db cid r = update_rating now db cid r"


text \<open>
  \<^verbatim>\<open>get_all_clips(rated_only=True)\<close>, which is \<^verbatim>\<open>get_rated_clips\<close>: the rows with a
  rating, \<^verbatim>\<open>ORDER BY created_at DESC\<close> (text compared byte by byte). SQL leaves the
  order of rows with equal \<^verbatim>\<open>created_at\<close> open; here it is the reverse of the stable
  ascending sort. No property below depends on it.
\<close>

definition get_rated_clips :: "ClipDatabase \<Rightarrow> ClipRecord list" where
  "get_rated_clips db = rev (sort_key created_at (filter (\<lambda>c. rating c \<noteq> None) db))"

text \<open>\<^verbatim>\<open>get_training_data\<close>: the feature dictionaries and the ratings of the rated clips.\<close>

definition get_training_data :: "ClipDatabase \<Rightarrow> Dict list \<times> int list" where
  "get_training_data db =
     (let rated_clips = get_rated_clips db
      in (map features rated_clips, map (\<lambda>c. the (rating c)) rated_clips))"

text \<open>The two counts of \<^verbatim>\<open>get_statistics\<close> that the trainer reads.\<close>

definition total_clips :: "ClipDatabase \<Rightarrow> nat" where
  "total_clips db = length db"

definition rated_clips :: "ClipDatabase \<Rightarrow> nat" where
  "rated_clips db = length (filter (\<lambda>c. rating c \<noteq> None) db)"


section \<open>Highlights and their selection (\<^verbatim>\<open>kick_clip_generator.py\<close>)\<close>

datatype modality = Audio | Video

text \<open>The dataclass \<^verbatim>\<open>Highlight\<close>; its field \<^verbatim>\<open>type\<close> is \<open>htype\<close> here.\<close>

record Highlight =
  start_time :: real
  end_time :: real
  score :: real
  htype :: modality
  features :: Dict
  timestamp :: string

text \<open>
  The inner loop of \<^verbatim>\<open>_filter_highlights\<close>: does the candidate start less than
  \<^verbatim>\<open>min_gap\<close> away from a highlight already selected?
\<close>

definition overlap_with :: "real \<Rightarrow> Highlight \<Rightarrow> Highlight list \<Rightarrow> bool" where
  "overlap_with min_gap highlight filtered =
     list_ex (\<lambda>selected. \<bar>start_time highlight - start_time selected\<bar> < min_gap) filtered"

text \<open>
  The outer loop over \<^verbatim>\<open>sorted_highlights\<close>, with \<^verbatim>\<open>filtered\<close> as accumulator. The test
  \<^verbatim>\<open>len(filtered) >= top_n\<close> comes after the candidate has been handled, and leaves
  the loop.
\<close>

fun filter_loop :: "real \<Rightarrow> int \<Rightarrow> Highlight list \<Rightarrow> Highlight list \<Rightarrow> Highlight list" where
  "filter_loop min_gap top_n filtered [] = filtered"
| "filter_loop min_gap top_n filtered (highlight # rest) =
     (let filtered' = (if overlap_with min_gap highlight filtered then filtered
                       else filtered @ [highlight])
      in if int (length filtered') \<ge> top_n then filtered'
         else filter_loop min_gap top_n filtered' rest)"

text \<open>
  \<^verbatim>\<open>KickClipGenerator._filter_highlights(highlights, top_n, max_clips)\<close>, with
  \<^verbatim>\<open>self.min_gap\<close> as first argument. \<^verbatim>\<open>sorted(..., reverse=True)\<close> is stable: equal
  scores keep their order, so it is the stable sort on the negated score.
\<close>

definition filter_highlights ::
  "real \<Rightarrow> Highlight list \<Rightarrow> int \<Rightarrow> int option \<Rightarrow> Highlight list" where
  "filter_highlights min_gap highlights top_n max_clips =
     (if highlights = [] then []
      else
        let top_n' = (case max_clips of None \<Rightarrow> top_n | Some m \<Rightarrow> min top_n m);
            sorted_highlights = sort_key (\<lambda>x. - score x) highlights;
            filtered = filter_loop min_gap top_n' [] sorted_highlights
        in sort_key start_time filtered)"


section \<open>Configuration (\<^verbatim>\<open>config.py\<close>)\<close>

definition MAX_STREAM_DURATION :: real where
  "MAX_STREAM_DURATION = 36000"

definition MAX_CLIPS_PER_TYPE :: int where
  "MAX_CLIPS_PER_TYPE = 25"

definition MAX_TOTAL_CLIPS :: int where
  "MAX_TOTAL_CLIPS = 50"


section \<open>The chunk scheduler (\<^verbatim>\<open>StreamProcessor.process_stream_chunks\<close>)\<close>

text \<open>The two attributes of \<^verbatim>\<open>StreamProcessor\<close> that the scheduler reads.\<close>

record StreamProcessor =
  chunk_duration :: real
  overlap :: real

text \<open>
  The dictionary a chunk is yielded as: \<^verbatim>\<open>start_time\<close>, \<^verbatim>\<open>end_time\<close>, \<^verbatim>\<open>index\<close>
  (\<^verbatim>\<open>path\<close> is \<^verbatim>\<open>chunk_<index>.mp4\<close>).
\<close>

record chunk_info =
  chunk_start :: real
  chunk_end :: real
  chunk_index :: nat

text \<open>
  The \<^verbatim>\<open>while current_time < end_time_sec\<close> loop. The generator's yields are collected in
  \<open>acc\<close>. \<open>ok i\<close> says that the download of chunk \<open>i\<close> succeeded and left its file
  (\<^verbatim>\<open>success and chunk_path.exists()\<close>); a chunk whose download failed is skipped, and
  the loop goes on. With \<^verbatim>\<open>chunk_duration - overlap \<le> 0\<close> the loop does not end: the
  value is then \<open>None\<close>.
\<close>

partial_function (option) chunk_loop ::
  "StreamProcessor \<Rightarrow> (nat \<Rightarrow> bool) \<Rightarrow> real \<Rightarrow> real \<Rightarrow> nat \<Rightarrow> chunk_info list
     \<Rightarrow> chunk_info list option" where
  "chunk_loop p ok end_time_sec current_time index acc =
     (if current_time < end_time_sec then
        chunk_loop p ok end_time_sec (current_time + (chunk_duration p - overlap p)) (index + 1)
          (if ok index
           then acc @ [\<lparr>chunk_start = current_time,
                        chunk_end = min (current_time + min (chunk_duration p) (end_time_sec - current_time))
                                        end_time_sec,
                        chunk_index = index\<rparr>]
           else acc)
      else Some acc)"

text \<open>
  \<^verbatim>\<open>process_stream_chunks(stream_url, callback, start_minute, end_minute)\<close>. \<open>info\<close> is the
  \<^verbatim>\<open>duration\<close> (here \<open>dur\<close>) that \<^verbatim>\<open>get_stream_info\<close> reports (\<open>None\<close> when it fails). The result is \<open>None\<close>
  when the generator never ends, \<open>Some (Inl e)\<close> when it raises \<open>e\<close>, and otherwise the
  chunks it yields. The only raise is the division by \<^verbatim>\<open>self.chunk_duration\<close> in the
  log line before the loop.
\<close>

definition process_stream_chunks ::
  "StreamProcessor \<Rightarrow> real option \<Rightarrow> (nat \<Rightarrow> bool) \<Rightarrow> real option \<Rightarrow> real option
     \<Rightarrow> (exn + chunk_info list) option" where
  "process_stream_chunks p info ok start_minute end_minute =
     (case info of
        None \<Rightarrow> Some (Inr [])
      | Some dur \<Rightarrow>
          let start_time_sec = (case start_minute of Some m \<Rightarrow> m * 60 | None \<Rightarrow> 0);
              end_time_sec = (case end_minute of Some m \<Rightarrow> m * 60 | None \<Rightarrow> dur);
              start_time_sec = (if start_time_sec < 0 then 0 else start_time_sec);
              end_time_sec = (if end_time_sec > dur then dur else end_time_sec)
          in if start_time_sec \<ge> end_time_sec then Some (Inr [])
             else
               let effective_duration = end_time_sec - start_time_sec;
                   end_time_sec = (if effective_duration > MAX_STREAM_DURATION
                                   then start_time_sec + MAX_STREAM_DURATION else end_time_sec)
               in if chunk_duration p = 0 then Some (Inl ZeroDivisionError)
                  else map_option Inr (chunk_loop p ok end_time_sec start_time_sec 0 []))"


section \<open>The learned model (\<^verbatim>\<open>MLHighlightModel\<close>)\<close>

subsection \<open>The scikit-learn interface\<close>

text \<open>
  The estimators are library objects. \<open>'sc\<close> is the state of a \<^verbatim>\<open>StandardScaler\<close> object,
  \<open>'en\<close> the state of a \<^verbatim>\<open>GradientBoostingRegressor\<close> object, fitted or not. A call of
  \<^verbatim>\<open>fit\<close> mutates the object and may raise: its result is the object after the call, and
  whether the call raised. \<^verbatim>\<open>transform\<close> and \<^verbatim>\<open>predict\<close> return \<open>None\<close> when they raise
  (an estimator that is not fitted, a wrong number of columns).
\<close>

datatype 'o fit = Fitted 'o | Failed 'o

record ('sc, 'en) sklearn =
  StandardScaler :: 'sc
  GradientBoostingRegressor :: 'en
  GradientBoostingRegressor_depth5 :: 'en
  scaler_fit :: "'sc \<Rightarrow> real list list \<Rightarrow> 'sc fit"
  scaler_transform :: "'sc \<Rightarrow> real list list \<Rightarrow> real list list option"
  regressor_fit :: "'en \<Rightarrow> real list list \<Rightarrow> real list \<Rightarrow> 'en fit"
  regressor_predict :: "'en \<Rightarrow> real list list \<Rightarrow> real list option"

text \<open>
  \<^verbatim>\<open>np.array(rows).shape[1]\<close>: the common length of the rows; it raises (\<open>None\<close>) when
  there is no row or when the rows differ in length.
\<close>

definition shape1 :: "real list list \<Rightarrow> nat option" where
  "shape1 X = (case X of
                 [] \<Rightarrow> None
               | r # rs \<Rightarrow> if list_all (\<lambda>r'. length r' = length r) rs then Some (length r) else None)"

subsection \<open>The model file\<close>

text \<open>
  The dictionary pickled to \<^verbatim>\<open>models/highlight_model.pkl\<close>; the field \<open>pk_k\<close> is its key
  \<open>k\<close>, and \<^verbatim>\<open>training_data\<close> is spread over four fields. The file is
  \<open>None\<close> when it does not exist. Reading and writing it are taken to succeed.
\<close>

record ('sc, 'en) model_data =
  pk_audio_model :: 'en
  pk_video_model :: 'en
  pk_audio_scaler :: 'sc
  pk_video_scaler :: 'sc
  pk_audio_features :: "real list list"
  pk_audio_scores :: "real list"
  pk_video_features :: "real list list"
  pk_video_scores :: "real list"
  pk_audio_feature_count :: "nat option"
  pk_video_feature_count :: "nat option"

subsection \<open>The object\<close>

text \<open>
  The attributes of \<^verbatim>\<open>MLHighlightModel\<close>; \<^verbatim>\<open>training_data[t]['features']\<close> is
  \<open>t_features\<close>, \<^verbatim>\<open>training_data[t]['scores']\<close> is \<open>t_scores\<close>. The key of the prediction
  cache, \<^verbatim>\<open>hash(str(sorted(features.items())))\<close>, is the sorted list of items itself:
  two dictionaries share a key exactly when they have the same items (a collision of
  \<^verbatim>\<open>hash\<close> is left out).
\<close>

record ('sc, 'en) MLHighlightModel =
  audio_model :: 'en
  video_model :: 'en
  audio_scaler :: 'sc
  video_scaler :: 'sc
  audio_scaler_fitted :: bool
  video_scaler_fitted :: bool
  audio_features :: "real list list"
  audio_scores :: "real list"
  video_features :: "real list list"
  video_scores :: "real list"
  expected_audio_features :: "nat option"
  expected_video_features :: "nat option"
  cache :: "(string \<times> real) list \<rightharpoonup> real"

text \<open>\<^verbatim>\<open>__init__\<close> followed by \<^verbatim>\<open>load_model\<close>.\<close>

definition load_model ::
  "('sc, 'en) sklearn \<Rightarrow> ('sc, 'en) model_data option \<Rightarrow> ('sc, 'en) MLHighlightModel" where
  "load_model lib file =
     (case file of
        Some data \<Rightarrow>
          \<lparr>audio_model = pk_audio_model data,
           video_model = pk_video_model data,
           audio_scaler = pk_audio_scaler data,
           video_scaler = pk_video_scaler data,
           audio_scaler_fitted = (length (pk_audio_features data) \<ge> 10),
           video_scaler_fitted = (length (pk_video_features data) \<ge> 10),
           audio_features = pk_audio_features data,
           audio_scores = pk_audio_scores data,
           video_features = pk_video_features data,
           video_scores = pk_video_scores data,
           expected_audio_features = pk_audio_feature_count data,
           expected_video_features = pk_video_feature_count data,
           cache = Map.empty\<rparr>
      | None \<Rightarrow>
          \<lparr>audio_model = GradientBoostingRegressor lib,
           video_model = GradientBoostingRegressor lib,
           audio_scaler = StandardScaler lib,
           video_scaler = StandardScaler lib,
           audio_scaler_fitted = False,
           video_scaler_fitted = False,
           audio_features = [],
           audio_scores = [],
           video_features = [],
           video_scores = [],
           expected_audio_features = None,
           expected_video_features = None,
           cache = Map.empty\<rparr>)"

definition save_model :: "('sc, 'en) MLHighlightModel \<Rightarrow> ('sc, 'en) model_data option" where
  "save_model s =
     Some \<lparr>pk_audio_model = audio_model s,
           pk_video_model = video_model s,
           pk_audio_scaler = audio_scaler s,
           pk_video_scaler = video_scaler s,
           pk_audio_features = audio_features s,
           pk_audio_scores = audio_scores s,
           pk_video_features = video_features s,
           pk_video_scores = video_scores s,
           pk_audio_feature_count = expected_audio_features s,
           pk_video_feature_count = expected_video_features s\<rparr>"

definition dict_to_vector :: "Dict \<Rightarrow> real list" where
  "dict_to_vector feats = map snd feats"

definition cache_key_of :: "Dict \<Rightarrow> (string \<times> real) list" where
  "cache_key_of feats = sort feats"

definition reset_audio_model ::
  "('sc, 'en) sklearn \<Rightarrow> ('sc, 'en) MLHighlightModel \<Rightarrow> ('sc, 'en) MLHighlightModel" where
  "reset_audio_model lib s =
     s\<lparr>audio_model := GradientBoostingRegressor lib,
       audio_scaler := StandardScaler lib,
       audio_scaler_fitted := False,
       audio_features := [],
       audio_scores := [],
       expected_audio_features := None\<rparr>"

definition reset_video_model ::
  "('sc, 'en) sklearn \<Rightarrow> ('sc, 'en) MLHighlightModel \<Rightarrow> ('sc, 'en) MLHighlightModel" where
  "reset_video_model lib s =
     s\<lparr>video_model := GradientBoostingRegressor lib,
       video_scaler := StandardScaler lib,
       video_scaler_fitted := False,
       video_features := [],
       video_scores := [],
       expected_video_features := None\<rparr>"

text \<open>
  \<^verbatim>\<open>predict_audio_score(features)\<close>: the returned score and the object after the call.
  The statements after the first \<^verbatim>\<open>return self.cache[cache_key]\<close> are never reached and
  are left out. Each \<open>(0, s)\<close> of the last branch is the \<^verbatim>\<open>except Exception\<close> handler.
\<close>

definition predict_audio_score ::
  "('sc, 'en) sklearn \<Rightarrow> ('sc, 'en) MLHighlightModel \<Rightarrow> Dict
     \<Rightarrow> real \<times> ('sc, 'en) MLHighlightModel" where
  "predict_audio_score lib s feats =
     (let cache_key = cache_key_of feats
      in case cache s cache_key of
           Some cached \<Rightarrow> (cached, s)
         | None \<Rightarrow>
             let feature_vector = dict_to_vector feats
             in if \<not> audio_scaler_fitted s \<or> length (audio_features s) < 10 then
                  (max 0 0, s\<lparr>cache := (cache s)(cache_key \<mapsto> max 0 0)\<rparr>)
                else if expected_audio_features s \<noteq> None
                        \<and> length feature_vector \<noteq> the (expected_audio_features s) then
                  (let s' = reset_audio_model lib s
                   in (max 0 0, s'\<lparr>cache := (cache s')(cache_key \<mapsto> max 0 0)\<rparr>))
                else
                  (case scaler_transform lib (audio_scaler s) [feature_vector] of
                     None \<Rightarrow> (0, s)
                   | Some scaled \<Rightarrow>
                       (case regressor_predict lib (audio_model s) scaled of
                          None \<Rightarrow> (0, s)
                        | Some [] \<Rightarrow> (0, s)
                        | Some (sc # _) \<Rightarrow>
                            (max 0 sc, s\<lparr>cache := (cache s)(cache_key \<mapsto> max 0 sc)\<rparr>))))"

text \<open>
  \<^verbatim>\<open>predict_video_score(features)\<close> reads the same cache and never writes to it.
\<close>

definition predict_video_score ::
  "('sc, 'en) sklearn \<Rightarrow> ('sc, 'en) MLHighlightModel \<Rightarrow> Dict
     \<Rightarrow> real \<times> ('sc, 'en) MLHighlightModel" where
  "predict_video_score lib s feats =
     (let cache_key = cache_key_of feats
      in case cache s cache_key of
           Some cached \<Rightarrow> (cached, s)
         | None \<Rightarrow>
             let feature_vector = dict_to_vector feats
             in if \<not> video_scaler_fitted s \<or> length (video_features s) < 10 then (0, s)
                else if expected_video_features s \<noteq> None
                        \<and> length feature_vector \<noteq> the (expected_video_features s) then
                  (0, reset_video_model lib s)
                else
                  (case scaler_transform lib (video_scaler s) [feature_vector] of
                     None \<Rightarrow> (0, s)
                   | Some scaled \<Rightarrow>
                       (case regressor_predict lib (video_model s) scaled of
                          None \<Rightarrow> (0, s)
                        | Some [] \<Rightarrow> (0, s)
                        | Some (sc # _) \<Rightarrow> (max 0 sc, s))))"

definition add_training_sample ::
  "('sc, 'en) MLHighlightModel \<Rightarrow> Dict \<Rightarrow> real \<Rightarrow> modality \<Rightarrow> ('sc, 'en) MLHighlightModel" where
  "add_training_sample s feats sc feature_type =
     (let feature_vector = dict_to_vector feats
      in case feature_type of
           Audio \<Rightarrow> s\<lparr>audio_features := audio_features s @ [feature_vector],
                      audio_scores := audio_scores s @ [sc]\<rparr>
         | Video \<Rightarrow> s\<lparr>video_features := video_features s @ [feature_vector],
                      video_scores := video_scores s @ [sc]\<rparr>)"

text \<open>
  The audio block of \<^verbatim>\<open>retrain\<close>: the object after the block, and whether an exception
  left it early. The expected feature count is assigned before the fits; the flag
  \<^verbatim>\<open>audio_scaler_fitted\<close> after them.
\<close>

definition retrain_audio ::
  "('sc, 'en) sklearn \<Rightarrow> ('sc, 'en) MLHighlightModel \<Rightarrow> bool \<times> ('sc, 'en) MLHighlightModel" where
  "retrain_audio lib s =
     (if length (audio_features s) \<ge> 10 then
        (case shape1 (audio_features s) of
           None \<Rightarrow> (True, s)
         | Some n \<Rightarrow>
             let s1 = s\<lparr>expected_audio_features := Some n\<rparr>
             in case scaler_fit lib (audio_scaler s1) (audio_features s1) of
                  Failed sc \<Rightarrow> (True, s1\<lparr>audio_scaler := sc\<rparr>)
                | Fitted sc \<Rightarrow>
                    let s2 = s1\<lparr>audio_scaler := sc\<rparr>
                    in case scaler_transform lib sc (audio_features s2) of
                         None \<Rightarrow> (True, s2)
                       | Some X_scaled \<Rightarrow>
                           (case regressor_fit lib (audio_model s2) X_scaled (audio_scores s2) of
                              Failed m \<Rightarrow> (True, s2\<lparr>audio_model := m\<rparr>)
                            | Fitted m \<Rightarrow>
                                (False, s2\<lparr>audio_model := m, audio_scaler_fitted := True\<rparr>)))
      else (False, s))"

definition retrain_video ::
  "('sc, 'en) sklearn \<Rightarrow> ('sc, 'en) MLHighlightModel \<Rightarrow> bool \<times> ('sc, 'en) MLHighlightModel" where
  "retrain_video lib s =
     (if length (video_features s) \<ge> 10 then
        (case shape1 (video_features s) of
           None \<Rightarrow> (True, s)
         | Some n \<Rightarrow>
             let s1 = s\<lparr>expected_video_features := Some n\<rparr>
             in case scaler_fit lib (video_scaler s1) (video_features s1) of
                  Failed sc \<Rightarrow> (True, s1\<lparr>video_scaler := sc\<rparr>)
                | Fitted sc \<Rightarrow>
                    let s2 = s1\<lparr>video_scaler := sc\<rparr>
                    in case scaler_transform lib sc (video_features s2) of
                         None \<Rightarrow> (True, s2)
                       | Some X_scaled \<Rightarrow>
                           (case regressor_fit lib (video_model s2) X_scaled (video_scores s2) of
                              Failed m \<Rightarrow> (True, s2\<lparr>video_model := m\<rparr>)
                            | Fitted m \<Rightarrow>
                                (False, s2\<lparr>video_model := m, video_scaler_fitted := True\<rparr>)))
      else (False, s))"

text \<open>
  \<^verbatim>\<open>retrain()\<close>: one \<^verbatim>\<open>try\<close> holds the audio block, the video block and
  \<^verbatim>\<open>save_model()\<close>, in this order; its handler only logs. The result is the object and
  the model file after the call.
\<close>

definition retrain ::
  "('sc, 'en) sklearn \<Rightarrow> ('sc, 'en) MLHighlightModel \<Rightarrow> ('sc, 'en) model_data option
     \<Rightarrow> ('sc, 'en) MLHighlightModel \<times> ('sc, 'en) model_data option" where
  "retrain lib s file =
     (case retrain_audio lib s of
        (True, s1) \<Rightarrow> (s1, file)
      | (False, s1) \<Rightarrow>
          (case retrain_video lib s1 of
             (True, s2) \<Rightarrow> (s2, file)
           | (False, s2) \<Rightarrow> (s2, save_model s2)))"


section \<open>Training from ratings (\<^verbatim>\<open>model_trainer.py\<close>)\<close>

definition feature_keys :: "string list" where
  "feature_keys =
     [''rms_mean'', ''rms_std'', ''zcr_mean'', ''zcr_std'',
      ''spectral_centroid_mean'', ''spectral_centroid_std'',
      ''spectral_rolloff_mean'', ''spectral_rolloff_std'',
      ''tempo'', ''beat_strength'',
      ''motion_mean'', ''motion_std'', ''edge_density'',
      ''color_variance'', ''brightness_mean'']"

definition extract_feature_vector :: "Dict \<Rightarrow> real list" where
  "extract_feature_vector feats = map (\<lambda>key. dict_get feats key 0) feature_keys"

definition audio_keys :: "string list" where
  "audio_keys = [''rms_mean'', ''zcr_mean'', ''spectral_centroid_mean'', ''tempo'']"

definition is_audio_features :: "Dict \<Rightarrow> bool" where
  "is_audio_features feats = list_ex (\<lambda>key. map_of feats key \<noteq> None) audio_keys"

text \<open>
  \<^verbatim>\<open>prepare_training_data\<close>: the four lists \<^verbatim>\<open>audio['X']\<close>, \<^verbatim>\<open>audio['y']\<close>,
  \<^verbatim>\<open>video['X']\<close>, \<^verbatim>\<open>video['y']\<close>, built by one pass over the rated clips.
\<close>

record training_sets =
  audio_X :: "real list list"
  audio_y :: "real list"
  video_X :: "real list list"
  video_y :: "real list"

fun prepare_loop :: "training_sets \<Rightarrow> (Dict \<times> int) list \<Rightarrow> training_sets" where
  "prepare_loop t [] = t"
| "prepare_loop t ((feats, r) # rest) =
     (let normalized_rating = (real_of_int r - 1) / 4;
          feature_vector = extract_feature_vector feats
      in if is_audio_features feats
         then prepare_loop (t\<lparr>audio_X := audio_X t @ [feature_vector],
                              audio_y := audio_y t @ [normalized_rating]\<rparr>) rest
         else prepare_loop (t\<lparr>video_X := video_X t @ [feature_vector],
                              video_y := video_y t @ [normalized_rating]\<rparr>) rest)"

definition prepare_training_data :: "ClipDatabase \<Rightarrow> training_sets" where
  "prepare_training_data db =
     (case get_training_data db of
        (features_list, ratings_list) \<Rightarrow>
          prepare_loop \<lparr>audio_X = [], audio_y = [], video_X = [], video_y = []\<rparr>
            (zip features_list ratings_list))"

definition load_or_create_model ::
  "('sc, 'en) sklearn \<Rightarrow> ('sc, 'en) model_data option \<Rightarrow> ('sc, 'en) model_data" where
  "load_or_create_model lib file =
     (case file of
        Some data \<Rightarrow> data
      | None \<Rightarrow>
          \<lparr>pk_audio_model = GradientBoostingRegressor lib,
           pk_video_model = GradientBoostingRegressor lib,
           pk_audio_scaler = StandardScaler lib,
           pk_video_scaler = StandardScaler lib,
           pk_audio_features = [],
           pk_audio_scores = [],
           pk_video_features = [],
           pk_video_scores = [],
           pk_audio_feature_count = None,
           pk_video_feature_count = None\<rparr>)"

text \<open>
  The audio block of \<^verbatim>\<open>train_from_ratings\<close>: \<open>None\<close> when it raises, otherwise the
  updated \<^verbatim>\<open>model_data\<close> and the flag \<^verbatim>\<open>trained\<close>. The estimators are new objects;
  \<^verbatim>\<open>fit_transform\<close> is \<^verbatim>\<open>fit\<close> followed by \<^verbatim>\<open>transform\<close>.
\<close>

definition ratings_train_audio ::
  "('sc, 'en) sklearn \<Rightarrow> training_sets \<Rightarrow> int \<Rightarrow> ('sc, 'en) model_data \<times> bool
     \<Rightarrow> (('sc, 'en) model_data \<times> bool) option" where
  "ratings_train_audio lib t min_samples st =
     (case st of (data, trained) \<Rightarrow>
        if int (length (audio_X t)) \<ge> min_samples then
          (case scaler_fit lib (StandardScaler lib) (audio_X t) of
             Failed _ \<Rightarrow> None
           | Fitted audio_scaler' \<Rightarrow>
               (case scaler_transform lib audio_scaler' (audio_X t) of
                  None \<Rightarrow> None
                | Some X_scaled \<Rightarrow>
                    (case regressor_fit lib (GradientBoostingRegressor_depth5 lib) X_scaled (audio_y t) of
                       Failed _ \<Rightarrow> None
                     | Fitted audio_model' \<Rightarrow>
                         (case shape1 (audio_X t) of
                            None \<Rightarrow> None
                          | Some n \<Rightarrow>
                              Some (data\<lparr>pk_audio_model := audio_model',
                                         pk_audio_scaler := audio_scaler',
                                         pk_audio_features := audio_X t,
                                         pk_audio_scores := audio_y t,
                                         pk_audio_feature_count := Some n\<rparr>, True)))))
        else Some (data, trained))"

definition ratings_train_video ::
  "('sc, 'en) sklearn \<Rightarrow> training_sets \<Rightarrow> int \<Rightarrow> ('sc, 'en) model_data \<times> bool
     \<Rightarrow> (('sc, 'en) model_data \<times> bool) option" where
  "ratings_train_video lib t min_samples st =
     (case st of (data, trained) \<Rightarrow>
        if int (length (video_X t)) \<ge> min_samples then
          (case scaler_fit lib (StandardScaler lib) (video_X t) of
             Failed _ \<Rightarrow> None
           | Fitted video_scaler' \<Rightarrow>
               (case scaler_transform lib video_scaler' (video_X t) of
                  None \<Rightarrow> None
                | Some X_scaled \<Rightarrow>
                    (case regressor_fit lib (GradientBoostingRegressor_depth5 lib) X_scaled (video_y t) of
                       Failed _ \<Rightarrow> None
                     | Fitted video_model' \<Rightarrow>
                         (case shape1 (video_X t) of
                            None \<Rightarrow> None
                          | Some n \<Rightarrow>
                              Some (data\<lparr>pk_video_model := video_model',
                                         pk_video_scaler := video_scaler',
                                         pk_video_features := video_X t,
                                         pk_video_scores := video_y t,
                                         pk_video_feature_count := Some n\<rparr>, True)))))
        else Some (data, trained))"

text \<open>
  \<^verbatim>\<open>RatingBasedTrainer.train_from_ratings(min_samples)\<close>: the returned flag and the model
  file after the call. One \<^verbatim>\<open>try\<close> holds both blocks and the save; its handler returns
  False.
\<close>

definition train_from_ratings ::
  "('sc, 'en) sklearn \<Rightarrow> ClipDatabase \<Rightarrow> ('sc, 'en) model_data option \<Rightarrow> int
     \<Rightarrow> bool \<times> ('sc, 'en) model_data option" where
  "train_from_ratings lib db file min_samples =
     (let training_data = prepare_training_data db;
          data = load_or_create_model lib file
      in case ratings_train_audio lib training_data min_samples (data, False) of
           None \<Rightarrow> (False, file)
         | Some st1 \<Rightarrow>
             (case ratings_train_video lib training_data min_samples st1 of
                None \<Rightarrow> (False, file)
              | Some (data2, trained) \<Rightarrow>
                  if trained then (True, Some data2) else (False, file)))"

text \<open>The dictionary of \<^verbatim>\<open>get_training_progress\<close>.\<close>

record training_progress =
  progress_total_clips :: nat
  progress_rated_clips :: nat
  progress_unrated_clips :: int
  model_trained :: bool
  audio_training_samples :: nat
  video_training_samples :: nat
  ready_for_training :: bool

definition get_training_progress ::
  "ClipDatabase \<Rightarrow> ('sc, 'en) model_data option \<Rightarrow> training_progress" where
  "get_training_progress db file =
     \<lparr>progress_total_clips = total_clips db,
      progress_rated_clips = rated_clips db,
      progress_unrated_clips = int (total_clips db) - int (rated_clips db),
      model_trained = (file \<noteq> None),
      audio_training_samples = (case file of Some data \<Rightarrow> length (pk_audio_features data) | None \<Rightarrow> 0),
      video_training_samples = (case file of Some data \<Rightarrow> length (pk_video_features data) | None \<Rightarrow> 0),
      ready_for_training = (rated_clips db \<ge> 10)\<rparr>"

text \<open>\<^verbatim>\<open>auto_train_if_ready(clip_manager, min_samples)\<close>, called after each stored rating.\<close>

definition auto_train_if_ready ::
  "('sc, 'en) sklearn \<Rightarrow> ClipDatabase \<Rightarrow> ('sc, 'en) model_data option \<Rightarrow> int
     \<Rightarrow> bool \<times> ('sc, 'en) model_data option" where
  "auto_train_if_ready lib db file min_samples =
     (let progress = get_training_progress db file
      in if ready_for_training progress \<and> progress_rated_clips progress mod 5 = 0
         then train_from_ratings lib db file min_samples
         else (False, file))"

text \<open>
  The manual trigger, \<^verbatim>\<open>manual_train_model\<close> of \<^verbatim>\<open>gradio_interface.py\<close>; the three
  messages it can return are the three constructors.
\<close>

datatype manual_result = NeedMoreRatings nat | TrainingCompleted | TrainingFailed

definition manual_train_model ::
  "('sc, 'en) sklearn \<Rightarrow> ClipDatabase \<Rightarrow> ('sc, 'en) model_data option
     \<Rightarrow> manual_result \<times> ('sc, 'en) model_data option" where
  "manual_train_model lib db file =
     (let progress = get_training_progress db file
      in if \<not> ready_for_training progress then (NeedMoreRatings (progress_rated_clips progress), file)
         else case train_from_ratings lib db file 10 of
                (True, file') \<Rightarrow> (TrainingCompleted, file')
              | (False, file') \<Rightarrow> (TrainingFailed, file'))"


section \<open>Scoring a stream (\<^verbatim>\<open>KickClipGenerator.process_stream\<close>)\<close>

text \<open>The heuristic scores, \<^verbatim>\<open>detect_audio_highlights\<close> and \<^verbatim>\<open>detect_video_highlights\<close>.\<close>

definition detect_audio_highlights :: "Dict \<Rightarrow> real" where
  "detect_audio_highlights feats =
     (if feats = [] then 0
      else dict_get feats ''rms_mean'' 0 * 2
           + dict_get feats ''rms_std'' 0 * 1.5
           + dict_get feats ''zcr_mean'' 0 * 1
           + dict_get feats ''spectral_centroid_mean'' 0 / 1000
           + dict_get feats ''loudness_variance'' 0 * 0.5
           + dict_get feats ''high_freq_energy'' 0 / 1000000000)"

definition detect_video_highlights :: "Dict \<Rightarrow> real" where
  "detect_video_highlights feats =
     (if feats = [] then 0
      else dict_get feats ''motion_mean'' 0 * 2
           + dict_get feats ''motion_std'' 0 * 1.5
           + dict_get feats ''edge_density_mean'' 0 * 100
           + dict_get feats ''edge_density_std'' 0 * 50
           + dict_get feats ''color_variance_mean'' 0 / 1000)"

text \<open>
  The expression of \<^verbatim>\<open>combined_audio_score\<close> and \<^verbatim>\<open>combined_video_score\<close>:
  \<^verbatim>\<open>(score * 0.6 + ml_score * 0.4) if ml_score > 0 else score\<close>.
\<close>

definition combined_score :: "real \<Rightarrow> real \<Rightarrow> real" where
  "combined_score heuristic_score ml_score =
     (if ml_score > 0 then heuristic_score * 0.6 + ml_score * 0.4 else heuristic_score)"

text \<open>
  The state of the loop of \<^verbatim>\<open>process_stream\<close>: the model object and the two lists of
  highlights.
\<close>

record ('sc, 'en) stream_state =
  ml_model :: "('sc, 'en) MLHighlightModel"
  audio_highlights :: "Highlight list"
  video_highlights :: "Highlight list"

text \<open>
  The body of the loop for one chunk. \<open>af\<close> and \<open>vf\<close> are what the two feature extractors
  return for the chunk (\<open>None\<close> when they fail); \<^verbatim>\<open>if audio_features:\<close> also skips an
  empty dictionary. \<open>now\<close> is the clock read for the \<^verbatim>\<open>timestamp\<close>.
\<close>

definition process_audio ::
  "('sc, 'en) sklearn \<Rightarrow> real \<Rightarrow> string \<Rightarrow> real \<Rightarrow> Dict option
     \<Rightarrow> ('sc, 'en) stream_state \<Rightarrow> ('sc, 'en) stream_state" where
  "process_audio lib chunk_dur now start af st =
     (case af of
        None \<Rightarrow> st
      | Some audio_feats \<Rightarrow>
          if audio_feats = [] then st
          else
            (case predict_audio_score lib (ml_model st) audio_feats of
               (ml_audio_score, m1) \<Rightarrow>
                 let audio_score = detect_audio_highlights audio_feats;
                     combined_audio_score = combined_score audio_score ml_audio_score;
                     highlight = \<lparr>start_time = start,
                                  end_time = start + chunk_dur,
                                  score = combined_audio_score,
                                  htype = Audio,
                                  features = audio_feats,
                                  timestamp = now\<rparr>
                 in st\<lparr>ml_model := add_training_sample m1 audio_feats combined_audio_score Audio,
                       audio_highlights := audio_highlights st @ [highlight]\<rparr>))"

definition process_video ::
  "('sc, 'en) sklearn \<Rightarrow> real \<Rightarrow> string \<Rightarrow> real \<Rightarrow> Dict option
     \<Rightarrow> ('sc, 'en) stream_state \<Rightarrow> ('sc, 'en) stream_state" where
  "process_video lib chunk_dur now start vf st =
     (case vf of
        None \<Rightarrow> st
      | Some video_feats \<Rightarrow>
          if video_feats = [] then st
          else
            (case predict_video_score lib (ml_model st) video_feats of
               (ml_video_score, m1) \<Rightarrow>
                 let video_score = detect_video_highlights video_feats;
                     combined_video_score = combined_score video_score ml_video_score;
                     highlight = \<lparr>start_time = start,
                                  end_time = start + chunk_dur,
                                  score = combined_video_score,
                                  htype = Video,
                                  features = video_feats,
                                  timestamp = now\<rparr>
                 in st\<lparr>ml_model := add_training_sample m1 video_feats combined_video_score Video,
                       video_highlights := video_highlights st @ [highlight]\<rparr>))"

text \<open>
  What the outside world gives for a chunk: the two extracted feature dictionaries and
  the two clock readings.
\<close>

record chunk_inputs =
  audio_feats_of :: "Dict option"
  video_feats_of :: "Dict option"
  audio_now :: string
  video_now :: string

fun process_loop ::
  "('sc, 'en) sklearn \<Rightarrow> real \<Rightarrow> (nat \<Rightarrow> chunk_inputs) \<Rightarrow> chunk_info list
     \<Rightarrow> ('sc, 'en) stream_state \<Rightarrow> ('sc, 'en) stream_state" where
  "process_loop lib chunk_dur world [] st = st"
| "process_loop lib chunk_dur world (c # rest) st =
     (let w = world (chunk_index c);
          st1 = process_audio lib chunk_dur (audio_now w) (chunk_start c) (audio_feats_of w) st;
          st2 = process_video lib chunk_dur (video_now w) (chunk_start c) (video_feats_of w) st1
      in process_loop lib chunk_dur world rest st2)"

text \<open>
  \<^verbatim>\<open>process_stream\<close>. Arguments: the processor, \<^verbatim>\<open>self.min_gap\<close>, the model object and
  the model file, the stream (its duration, the download outcomes, the extracted
  features), and the caller's limits and time range. The value is \<open>None\<close> when the chunk
  generator never ends; otherwise the two lists returned, the model object and the
  model file. An exception of the generator is caught: the lists returned are empty.
\<close>

definition process_stream ::
  "('sc, 'en) sklearn \<Rightarrow> StreamProcessor \<Rightarrow> real \<Rightarrow> ('sc, 'en) MLHighlightModel
     \<Rightarrow> ('sc, 'en) model_data option
     \<Rightarrow> real option \<Rightarrow> (nat \<Rightarrow> bool) \<Rightarrow> (nat \<Rightarrow> chunk_inputs)
     \<Rightarrow> int \<Rightarrow> int \<Rightarrow> real option \<Rightarrow> real option
     \<Rightarrow> (Highlight list \<times> Highlight list \<times> ('sc, 'en) MLHighlightModel
          \<times> ('sc, 'en) model_data option) option" where
  "process_stream lib p min_gap m file info ok world max_audio_clips max_video_clips
       start_minute end_minute =
     (let max_audio_clips = min max_audio_clips MAX_CLIPS_PER_TYPE;
          max_video_clips = min max_video_clips MAX_CLIPS_PER_TYPE
      in case process_stream_chunks p info ok start_minute end_minute of
           None \<Rightarrow> None
         | Some (Inl e) \<Rightarrow> Some ([], [], m, file)
         | Some (Inr chunks) \<Rightarrow>
             let st = process_loop lib (chunk_duration p) world chunks
                        \<lparr>ml_model = m, audio_highlights = [], video_highlights = []\<rparr>;
                 audio = filter_highlights min_gap (audio_highlights st) 10 (Some max_audio_clips);
                 video = filter_highlights min_gap (video_highlights st) 10 (Some max_video_clips)
             in case retrain lib (ml_model st) file of
                  (m', file') \<Rightarrow> Some (audio, video, m', file'))"


section \<open>Concrete inputs\<close>

text \<open>
  Small inputs on which the theorems below are instantiated. Clip \<open>i\<close> is stored in a
  file of its own, named by \<open>i\<close> letters.
\<close>

definition example_clip :: "int \<Rightarrow> Dict \<Rightarrow> int option \<Rightarrow> ClipRecord" where
  "example_clip i feats r =
     \<lparr>id = i,
      filename = replicate (nat i) (CHR ''c'') @ ''.mp4'',
      filepath = ''/clips/'' @ replicate (nat i) (CHR ''c'') @ ''.mp4'',
      start_time = 0, end_time = 30, duration = 30, score = 1,
      clip_type = (if map_of feats ''motion_mean'' = None then ''audio'' else ''video''),
      features = feats, rating = r, created_at = ''2024-01-01T00:00:00'',
      rated_at = None, source_url = None\<rparr>"

definition example_db :: ClipDatabase where
  "example_db = [example_clip 1 [(''tempo'', 120)] None, example_clip 2 [(''motion_mean'', 3)] (Some 2)]"


definition example_highlight :: "real \<Rightarrow> real \<Rightarrow> Highlight" where
  "example_highlight t sc =
     \<lparr>start_time = t, end_time = t + 45, score = sc, htype = Audio,
      features = [(''rms_mean'', sc)], timestamp = ''2024-01-01T00:00:00''\<rparr>"


text \<open>
  A stand-in for the library, on which concrete runs are evaluated. A scaler remembers
  the data it was fitted on and transforms only rows of that width; its fit raises on the
  training sets that \<open>reject\<close> selects. A regressor predicts the mean of the targets it
  was fitted on, which is what gradient boosting returns when all targets are equal.
\<close>

definition toy_sklearn ::
  "(real list list \<Rightarrow> bool) \<Rightarrow> (real list list option, real list option) sklearn" where
  "toy_sklearn reject =
     \<lparr>StandardScaler = None,
      GradientBoostingRegressor = None,
      GradientBoostingRegressor_depth5 = None,
      scaler_fit = (\<lambda>sc X. if reject X then Failed None else Fitted (Some X)),
      scaler_transform =
        (\<lambda>sc X. case sc of
                   None \<Rightarrow> None
                 | Some D \<Rightarrow> if shape1 X = shape1 D then Some X else None),
      regressor_fit = (\<lambda>en X y. if y = [] then Failed en else Fitted (Some y)),
      regressor_predict =
        (\<lambda>en X. case en of
                   None \<Rightarrow> None
                 | Some y \<Rightarrow> Some (map (\<lambda>_. sum_list y / real (length y)) X))\<rparr>"

definition never :: "real list list \<Rightarrow> bool" where
  "never X = False"

definition new_stream_state ::
  "(real list list option, real list option) stream_state" where
  "new_stream_state =
     \<lparr>ml_model = load_model (toy_sklearn never) None, audio_highlights = [], video_highlights = []\<rparr>"


text \<open>A store of \<open>n\<close> clips with audio features, each rated 3 stars.\<close>

definition rated_db :: "nat \<Rightarrow> ClipDatabase" where
  "rated_db n = map (\<lambda>i. example_clip (int i) [(''tempo'', 120)] (Some 3)) [0..<n]"


text \<open>The vector \<^verbatim>\<open>_extract_feature_vector\<close> builds from \<^verbatim>\<open>{'tempo': 120}\<close>.\<close>

definition tempo_vector :: "real list" where
  "tempo_vector = [0, 0, 0, 0, 0, 0, 0, 0, 120, 0, 0, 0, 0, 0, 0]"


text \<open>
  A stream whose chunk \<open>i\<close> has the audio feature \<^verbatim>\<open>rms_mean\<close> \<open>= i + 1\<close> and no video
  features.
\<close>

definition example_world :: "nat \<Rightarrow> chunk_inputs" where
  "example_world i =
     \<lparr>audio_feats_of = Some [(''rms_mean'', real i + 1)], video_feats_of = None,
      audio_now = ''2024-01-01T00:00:00'', video_now = ''2024-01-01T00:00:00''\<rparr>"

definition default_processor :: StreamProcessor where
  "default_processor = \<lparr>chunk_duration = 45, overlap = 3\<rparr>"


text \<open>Feature dictionaries with one, two and three entries.\<close>

definition one_feature :: Dict where
  "one_feature = [(''rms_mean'', 1)]"

definition two_features :: Dict where
  "two_features = [(''rms_mean'', 5), (''tempo'', 1)]"

definition three_features :: Dict where
  "three_features = [(''rms_mean'', 5), (''tempo'', 1), (''zcr_mean'', 0)]"

text \<open>\<open>n\<close> calls of \<^verbatim>\<open>add_training_sample\<close> with the same sample.\<close>

primrec add_samples ::
  "('sc, 'en) MLHighlightModel \<Rightarrow> Dict \<Rightarrow> real \<Rightarrow> modality \<Rightarrow> nat \<Rightarrow> ('sc, 'en) MLHighlightModel" where
  "add_samples s feats sc feature_type 0 = s"
| "add_samples s feats sc feature_type (Suc n) =
     add_training_sample (add_samples s feats sc feature_type n) feats sc feature_type"

text \<open>
  A session on a new model: one prediction for \<open>one_feature\<close>, then ten audio samples
  with two features and score 1, then \<^verbatim>\<open>retrain()\<close>.
\<close>

definition trained_session :: "(real list list option, real list option) MLHighlightModel" where
  "trained_session =
     fst (retrain (toy_sklearn never)
            (add_samples
               (snd (predict_audio_score (toy_sklearn never) (load_model (toy_sklearn never) None)
                       one_feature))
               two_features 1 Audio 10)
            None)"

text \<open>
  The session goes on: a prediction for \<open>two_features\<close>, then one for \<open>three_features\<close>.
\<close>

definition reset_session :: "(real list list option, real list option) MLHighlightModel" where
  "reset_session =
     snd (predict_audio_score (toy_sklearn never)
            (snd (predict_audio_score (toy_sklearn never) trained_session two_features))
            three_features)"









section \<open>Properties of the clip store\<close>

lemma update_rating_no_match:
  "\<forall>c \<in> set db. id c \<noteq> cid \<Longrightarrow>
   map (\<lambda>c. if id c = cid then c\<lparr>rating := Some r, rated_at := Some now\<rparr> else c) db = db"
  by (induction db) auto

lemma filter_id_empty_iff:
  "length (filter (\<lambda>c. id c = cid) db) > 0 \<longleftrightarrow> (\<exists>c \<in> set db. id c = cid)"
  by (induction db) auto

text \<open>
  Claim C10, as the code has it. A rating outside 1..5 is refused: the call returns
  False and the store is unchanged. For a clip id that SQLite can hold (a signed 64-bit
  integer): a rating in 1..5 for an id present in the store returns True, and the store
  keeps its length and, row by row, the rows with that id keep every field but
  \<^verbatim>\<open>rating\<close> and \<^verbatim>\<open>rated_at\<close>, which are overwritten, and every other row is unchanged;
  for an id not in the store the call returns False and the store is unchanged. For a
  rating in 1..5 and a clip id outside that range, which no row can have, the call raises
  \<^verbatim>\<open>OverflowError\<close> and returns nothing.
\<close>

theorem update_rating_contract:
  "(\<not> (1 \<le> r \<and> r \<le> 5) \<longrightarrow> update_rating now db cid r = Inr (False, db))
   \<and> (1 \<le> r \<and> r \<le> 5 \<and> sqlite_integer cid \<and> (\<exists>c \<in> set db. id c = cid) \<longrightarrow>
        (\<exists>db'. update_rating now db cid r = Inr (True, db')
           \<and> length db' = length db
           \<and> (\<forall>i < length db.
                 db' ! i =
                   (if id (db ! i) = cid
                    then (db ! i)\<lparr>rating := Some r, rated_at := Some now\<rparr>
                    else db ! i))))
   \<and> (sqlite_integer cid \<and> (\<forall>c \<in> set db. id c \<noteq> cid) \<longrightarrow>
        update_rating now db cid r = Inr (False, db))
   \<and> (1 \<le> r \<and> r \<le> 5 \<and> \<not> sqlite_integer cid \<longrightarrow>
        update_rating now db cid r = Inl OverflowError)"
proof (intro conjI impI)
  assume "\<not> (1 \<le> r \<and> r \<le> 5)"
  then show "update_rating now db cid r = Inr (False, db)"
    by (simp add: update_rating_def)
next
  assume h: "1 \<le> r \<and> r \<le> 5 \<and> sqlite_integer cid \<and> (\<exists>c \<in> set db. id c = cid)"
  then have pos: "length (filter (\<lambda>c. id c = cid) db) > 0"
    by (simp only: filter_id_empty_iff)
  let ?db' = "map (\<lambda>c. if id c = cid then c\<lparr>rating := Some r, rated_at := Some now\<rparr> else c) db"
  from h pos have "update_rating now db cid r = Inr (True, ?db')"
    by (simp add: update_rating_def Let_def)
  moreover have "length ?db' = length db"
    by simp
  moreover have "\<forall>i < length db.
      ?db' ! i = (if id (db ! i) = cid then (db ! i)\<lparr>rating := Some r, rated_at := Some now\<rparr> else db ! i)"
    by simp
  ultimately show "\<exists>db'. update_rating now db cid r = Inr (True, db')
           \<and> length db' = length db
           \<and> (\<forall>i < length db.
                 db' ! i =
                   (if id (db ! i) = cid
                    then (db ! i)\<lparr>rating := Some r, rated_at := Some now\<rparr>
                    else db ! i))"
    by blast
next
  assume h: "sqlite_integer cid \<and> (\<forall>c \<in> set db. id c \<noteq> cid)"
  then have none: "\<forall>c \<in> set db. id c \<noteq> cid" by simp
  then have z: "\<not> length (filter (\<lambda>c. id c = cid) db) > 0"
    by (simp only: filter_id_empty_iff) simp
  show "update_rating now db cid r = Inr (False, db)"
    using h z update_rating_no_match [OF none, where r = r and now = now]
    by (simp add: update_rating_def Let_def)
next
  assume "1 \<le> r \<and> r \<le> 5 \<and> \<not> sqlite_integer cid"
  then show "update_rating now db cid r = Inl OverflowError"
    by (simp add: update_rating_def)
qed

text \<open>
  The id \<open>2 ^ 63\<close> is not in the store, the rating 4 is valid, and the call does not
  return False: it raises.
\<close>

theorem update_rating_unbindable_id:
  "2 ^ 63 \<notin> id ` set example_db
   \<and> update_rating ''now'' example_db (2 ^ 63) 4 = Inl OverflowError"
  by (simp add: update_rating_def sqlite_integer_def example_db_def example_clip_def)

theorem update_rating_contract_witness:
  "\<not> (1 \<le> (6::int) \<and> (6::int) \<le> 5)
   \<and> update_rating ''now'' example_db 1 6 = Inr (False, example_db)
   \<and> (1 \<le> (4::int) \<and> (4::int) \<le> 5 \<and> sqlite_integer 2 \<and> (\<exists>c \<in> set example_db. id c = 2))
   \<and> update_rating ''now'' example_db 2 4 =
        Inr (True, [example_clip 1 [(''tempo'', 120)] None,
                    (example_clip 2 [(''motion_mean'', 3)] (Some 2))
                      \<lparr>rating := Some 4, rated_at := Some ''now''\<rparr>])
   \<and> (sqlite_integer 7 \<and> 7 \<notin> id ` set example_db)
   \<and> update_rating ''now'' example_db 7 4 = Inr (False, example_db)
   \<and> (1 \<le> (4::int) \<and> (4::int) \<le> 5 \<and> \<not> sqlite_integer (- (2 ^ 63) - 1))
   \<and> update_rating ''now'' example_db (- (2 ^ 63) - 1) 4 = Inl OverflowError"
proof -
  have h1: "\<not> (1 \<le> (6::int) \<and> (6::int) \<le> 5)" by simp
  have h2: "1 \<le> (4::int) \<and> (4::int) \<le> 5 \<and> sqlite_integer 2 \<and> (\<exists>c \<in> set example_db. id c = 2)"
    by (simp add: example_db_def example_clip_def sqlite_integer_def)
  have h3: "sqlite_integer 7 \<and> (\<forall>c \<in> set example_db. id c \<noteq> 7)"
    by (simp add: example_db_def example_clip_def sqlite_integer_def)
  have h4: "1 \<le> (4::int) \<and> (4::int) \<le> 5 \<and> \<not> sqlite_integer (- (2 ^ 63) - 1)"
    by (simp add: sqlite_integer_def)
  have len: "length example_db = 2" "example_db ! 0 = example_clip 1 [(''tempo'', 120)] None"
    "example_db ! 1 = example_clip 2 [(''motion_mean'', 3)] (Some 2)"
    by (simp_all add: example_db_def)
  have ids: "id (example_clip 1 [(''tempo'', 120)] None) \<noteq> 2"
    "id (example_clip 2 [(''motion_mean'', 3)] (Some 2)) = 2"
    by (simp_all add: example_clip_def)
  note c1 = update_rating_contract [where r = 6 and now = "''now''" and db = example_db and cid = 1, THEN conjunct1, THEN mp, OF h1]
  note c2 = update_rating_contract [where r = 4 and now = "''now''" and db = example_db and cid = 2, THEN conjunct2, THEN conjunct1,
                                    THEN mp, OF h2]
  note c3 = update_rating_contract [where r = 4 and now = "''now''" and db = example_db and cid = 7, THEN conjunct2, THEN conjunct2,
                                    THEN conjunct1, THEN mp, OF h3]
  note c4 = update_rating_contract [where r = 4 and now = "''now''" and db = example_db
                                    and cid = "- (2 ^ 63) - 1", THEN conjunct2,
                                    THEN conjunct2, THEN conjunct2, THEN mp, OF h4]
  from c2 obtain db' where
    r: "update_rating ''now'' example_db 2 4 = Inr (True, db')"
    and l: "length db' = length example_db"
    and n: "\<forall>i < length example_db.
              db' ! i = (if id (example_db ! i) = 2
                         then (example_db ! i)\<lparr>rating := Some 4, rated_at := Some ''now''\<rparr>
                         else example_db ! i)"
    by blast
  from n have n0: "db' ! 0 = example_clip 1 [(''tempo'', 120)] None"
    using len ids by (metis zero_less_numeral)
  from n have n1: "db' ! 1 =
         (example_clip 2 [(''motion_mean'', 3)] (Some 2))\<lparr>rating := Some 4, rated_at := Some ''now''\<rparr>"
    using len ids by (metis one_less_numeral_iff semiring_norm(76))
  from l len have l2: "length db' = 2" by simp
  have "db' = [db' ! 0, db' ! 1]"
    using l2 by (cases db'; cases "tl db'") auto
  then have d: "db' = [example_clip 1 [(''tempo'', 120)] None,
                    (example_clip 2 [(''motion_mean'', 3)] (Some 2))
                      \<lparr>rating := Some 4, rated_at := Some ''now''\<rparr>]"
    by (simp only: n0 n1)
  from h3 have h3': "sqlite_integer 7 \<and> 7 \<notin> id ` set example_db" by auto
  show ?thesis
    using h1 c1 h2 r [unfolded d] h3' c3 h4 c4 by blast
qed


section \<open>Properties of the selection\<close>

lemma overlap_with_iff:
  "overlap_with g h acc \<longleftrightarrow> \<not> (\<forall>s \<in> set acc. g \<le> \<bar>start_time s - start_time h\<bar>)"
  by (auto simp: overlap_with_def list_ex_iff abs_minus_commute not_le)

lemma filter_loop_gapped:
  "sorted_wrt (\<lambda>a b. g \<le> \<bar>start_time a - start_time b\<bar>) acc \<Longrightarrow>
   sorted_wrt (\<lambda>a b. g \<le> \<bar>start_time a - start_time b\<bar>) (filter_loop g n acc xs)"
proof (induction xs arbitrary: acc)
  case Nil
  then show ?case by simp
next
  case (Cons h xs)
  show ?case
  proof (cases "overlap_with g h acc")
    case True
    with Cons show ?thesis by (simp add: Let_def)
  next
    case False
    then have "sorted_wrt (\<lambda>a b. g \<le> \<bar>start_time a - start_time b\<bar>) (acc @ [h])"
      using Cons.prems by (simp add: sorted_wrt_append overlap_with_iff)
    with False Cons.IH show ?thesis by (simp add: Let_def)
  qed
qed

lemma filter_loop_set: "set (filter_loop g n acc xs) \<subseteq> set acc \<union> set xs"
proof (induction xs arbitrary: acc)
  case Nil
  then show ?case by simp
next
  case (Cons h xs)
  have a: "set (filter_loop g n acc xs) \<subseteq> set acc \<union> set xs" by (rule Cons.IH)
  have b: "set (filter_loop g n (acc @ [h]) xs) \<subseteq> set (acc @ [h]) \<union> set xs" by (rule Cons.IH)
  from a b show ?case by (auto simp: Let_def)
qed

lemma filter_loop_length:
  "int (length acc) < n \<Longrightarrow> int (length (filter_loop g n acc xs)) \<le> n"
proof (induction xs arbitrary: acc)
  case Nil
  then show ?case by simp
next
  case (Cons h xs)
  then show ?case by (auto simp: Let_def)
qed

lemma filter_loop_nonpositive:
  "n \<le> 0 \<Longrightarrow> filter_loop g n [] (h # xs) = [h]"
  by (simp add: overlap_with_def Let_def)

lemma filter_loop_acc_nonempty:
  "acc \<noteq> [] \<Longrightarrow> filter_loop g n acc xs \<noteq> []"
  by (induction xs arbitrary: acc) (auto simp: Let_def)

lemma filter_loop_nonempty:
  "xs \<noteq> [] \<Longrightarrow> filter_loop g n [] xs \<noteq> []"
  by (cases xs) (auto simp: Let_def overlap_with_def filter_loop_acc_nonempty)

lemma filter_loop_keeps_all:
  "sorted_wrt (\<lambda>a b. g \<le> \<bar>start_time a - start_time b\<bar>) (acc @ xs) \<Longrightarrow>
   int (length (acc @ xs)) \<le> n \<Longrightarrow> filter_loop g n acc xs = acc @ xs"
proof (induction xs arbitrary: acc)
  case Nil
  then show ?case by simp
next
  case (Cons h xs)
  from Cons.prems(1) have no: "\<not> overlap_with g h acc"
    by (auto simp: overlap_with_iff sorted_wrt_append)
  from Cons.prems have ih: "filter_loop g n (acc @ [h]) xs = (acc @ [h]) @ xs"
    by (intro Cons.IH) simp_all
  show ?case
  proof (cases "int (length (acc @ [h])) \<ge> n")
    case True
    with Cons.prems(2) have "xs = []" by (cases xs) auto
    with no True show ?thesis by (simp add: Let_def)
  next
    case False
    with no ih show ?thesis by (simp add: Let_def)
  qed
qed

lemma filter_loop_sorted:
  "sorted (map f (acc @ xs)) \<Longrightarrow> sorted (map f (filter_loop g n acc xs))"
proof (induction xs arbitrary: acc)
  case Nil
  then show ?case by simp
next
  case (Cons h xs)
  have a: "sorted (map f (acc @ xs))"
    using Cons.prems by (auto simp: sorted_append)
  have b: "sorted (map f acc)" "sorted (map f (acc @ [h]))"
    using Cons.prems by (auto simp: sorted_append)
  have c: "sorted (map f ((acc @ [h]) @ xs))"
    using Cons.prems by simp
  show ?case
    using Cons.IH [OF a] Cons.IH [OF c] b by (auto simp: Let_def)
qed

lemma sorted_wrt_sym_insort:
  assumes "\<And>a b. P a b \<Longrightarrow> P b a"
  shows "sorted_wrt P (insort_key f x xs) \<longleftrightarrow> sorted_wrt P (x # xs)"
proof (induction xs)
  case Nil
  then show ?case by simp
next
  case (Cons y ys)
  then show ?case using assms by (auto simp: set_insort_key)
qed

lemma sorted_wrt_sym_sort_key:
  assumes "\<And>a b. P a b \<Longrightarrow> P b a"
  shows "sorted_wrt P (sort_key f xs) \<longleftrightarrow> sorted_wrt P xs"
proof (induction xs)
  case Nil
  then show ?case by simp
next
  case (Cons x xs)
  then show ?case by (simp add: sorted_wrt_sym_insort [of P, OF assms])
qed

lemma gap_sort_key:
  "sorted_wrt (\<lambda>a b. g \<le> \<bar>start_time a - start_time b\<bar>) (sort_key f xs)
     \<longleftrightarrow> sorted_wrt (\<lambda>a b. g \<le> \<bar>start_time a - start_time b\<bar>) xs"
  by (rule sorted_wrt_sym_sort_key) (simp add: abs_minus_commute)

lemma resort_stable:
  fixes A :: "Highlight list"
  assumes "sorted (map f A)"
  shows "sort_key k (sort_key f (sort_key k A)) = sort_key k A"
proof (rule properties_for_sort_key)
  show "mset (sort_key k A) = mset (sort_key f (sort_key k A))" by simp
  show "sorted (map k (sort_key k A))" by simp
  fix x assume "x \<in> set (sort_key k A)"
  have "filter (\<lambda>y. k x = k y) (sort_key f (sort_key k A))
          = sort_key f (filter (\<lambda>y. k x = k y) (sort_key k A))"
    by (simp add: filter_sort)
  also have "filter (\<lambda>y. k x = k y) (sort_key k A) = filter (\<lambda>y. k x = k y) A"
    using sort_key_stable [of k "k x" A] by (simp add: eq_commute)
  also have "sort_key f (filter (\<lambda>y. k x = k y) A) = filter (\<lambda>y. k x = k y) A"
    by (rule sort_key_id_if_sorted) (simp add: assms sorted_filter)
  finally show "filter (\<lambda>y. k x = k y) (sort_key k A) = filter (\<lambda>y. k x = k y) (sort_key f (sort_key k A))"
    using \<open>filter (\<lambda>y. k x = k y) (sort_key k A) = filter (\<lambda>y. k x = k y) A\<close> by simp
qed


text \<open>
  Claim C8. Selection is idempotent: selecting again from the selected list, with the same
  minimum gap and the same limits, returns that very list, in the same order.
\<close>

theorem filter_highlights_idempotent:
  "filter_highlights g (filter_highlights g hs n mc) n mc = filter_highlights g hs n mc"
proof (cases "hs = []")
  case True
  then show ?thesis by (simp add: filter_highlights_def)
next
  case False
  define n' where "n' = (case mc of None \<Rightarrow> n | Some m \<Rightarrow> min n m)"
  define S where "S = sort_key (\<lambda>x. - score x) hs"
  define A where "A = filter_loop g n' [] S"
  define F where "F = sort_key start_time A"
  define G where "G = sort_key (\<lambda>x. - score x) F"
  have first: "filter_highlights g hs n mc = F"
    using False by (simp add: filter_highlights_def Let_def n'_def S_def A_def F_def)
  have "S \<noteq> []"
    using False by (metis S_def length_sort length_0_conv)
  then have "A \<noteq> []"
    unfolding A_def by (rule filter_loop_nonempty)
  then have "F \<noteq> []"
    by (metis F_def length_sort length_0_conv)
  have gapA: "sorted_wrt (\<lambda>a b. g \<le> \<bar>start_time a - start_time b\<bar>) A"
    unfolding A_def by (rule filter_loop_gapped) simp
  have sortedA: "sorted (map (\<lambda>x. - score x) A)"
    unfolding A_def by (rule filter_loop_sorted) (simp add: S_def)
  have gapG: "sorted_wrt (\<lambda>a b. g \<le> \<bar>start_time a - start_time b\<bar>) G"
    using gapA by (simp add: G_def F_def gap_sort_key)
  have lenG: "length G = length A"
    by (simp add: G_def F_def)
  have keep: "filter_loop g n' [] G = G"
  proof (cases "0 < n'")
    case True
    then have "int (length A) \<le> n'"
      unfolding A_def by (intro filter_loop_length) simp
    with gapG lenG show ?thesis
      using filter_loop_keeps_all [of g "[]" G n'] by simp
  next
    case False
    obtain h rest where S: "S = h # rest"
      using \<open>S \<noteq> []\<close> by (cases S) auto
    from False have np: "n' \<le> 0" by simp
    then have "A = [h]"
      by (simp add: A_def S Let_def overlap_with_def)
    with lenG obtain x where "G = [x]"
      by (cases G) auto
    with np show ?thesis
      by (simp add: Let_def overlap_with_def)
  qed
  have "filter_highlights g F n mc = sort_key start_time (filter_loop g n' [] G)"
    using \<open>F \<noteq> []\<close> by (simp add: filter_highlights_def Let_def n'_def G_def)
  also have "\<dots> = sort_key start_time G"
    by (simp only: keep)
  also have "\<dots> = sort_key start_time (sort_key (\<lambda>x. - score x) (sort_key start_time A))"
    by (simp only: G_def F_def)
  also have "\<dots> = sort_key start_time A"
    using sortedA by (rule resort_stable)
  finally show ?thesis
    by (simp add: first F_def)
qed

lemma filter_highlights_sorted:
  "sorted (map start_time (filter_highlights g hs n mc))"
  by (simp add: filter_highlights_def Let_def)

lemma filter_highlights_gapped:
  "sorted_wrt (\<lambda>a b. g \<le> \<bar>start_time a - start_time b\<bar>) (filter_highlights g hs n mc)"
  by (simp add: filter_highlights_def Let_def gap_sort_key filter_loop_gapped)

lemma filter_highlights_length:
  "0 < (case mc of None \<Rightarrow> n | Some m \<Rightarrow> min n m) \<Longrightarrow>
   int (length (filter_highlights g hs n mc)) \<le> (case mc of None \<Rightarrow> n | Some m \<Rightarrow> min n m)"
  using filter_loop_length [of "[]" "case mc of None \<Rightarrow> n | Some m \<Rightarrow> min n m" g]
  by (simp add: filter_highlights_def Let_def)

lemma filter_highlights_subset:
  "set (filter_highlights g hs n mc) \<subseteq> set hs"
  using filter_loop_set [of g _ "[]" "sort_key (\<lambda>x. - score x) hs"]
  by (auto simp: filter_highlights_def Let_def)

text \<open>
  Claim C2. The selected list is sorted by start time and its members are pairwise at
  least the minimum gap apart (the two lemmas above); it has at most \<open>top_n\<close> members
  when the clamped \<open>top_n\<close> is positive. At the clamped limit 0 the bound fails: the loop
  tests the length only after it has taken the first candidate, so a request for at most
  0 highlights returns 1.
\<close>

theorem filter_highlights_zero_limit:
  "filter_highlights 10 [example_highlight 0 9] 10 (Some (min 0 MAX_CLIPS_PER_TYPE))
     = [example_highlight 0 9]
   \<and> min (min 10 (min 0 MAX_CLIPS_PER_TYPE)) MAX_TOTAL_CLIPS = 0"
  by (simp add: filter_highlights_def overlap_with_def MAX_CLIPS_PER_TYPE_def MAX_TOTAL_CLIPS_def)



section \<open>Properties of the scoring\<close>

text \<open>
  Claim C3. The combined score of a heuristic score \<open>h\<close> and a model prediction \<open>m\<close> is
  \<open>0.6 * h + 0.4 * m\<close> when \<open>m > 0\<close> and \<open>h\<close> otherwise; for \<open>h = 2\<close> it is 2 at \<open>m = 0\<close>
  and 1.6 at \<open>m = 1\<close>. The candidate that the loop of \<^verbatim>\<open>process_stream\<close> appends for a
  chunk carries this score, of the heuristic score of the chunk's features and of the
  prediction of the model, for audio and for video.
\<close>

theorem combined_score_contract:
  "(m > 0 \<longrightarrow> combined_score h m = 0.6 * h + 0.4 * m)
   \<and> (\<not> m > 0 \<longrightarrow> combined_score h m = h)
   \<and> combined_score 2 0 = 2
   \<and> combined_score 2 1 = 1.6
   \<and> (feats \<noteq> [] \<longrightarrow>
        audio_highlights (process_audio lib L now t (Some feats) st) =
          audio_highlights st @
            [\<lparr>start_time = t, end_time = t + L,
              score = combined_score (detect_audio_highlights feats)
                        (fst (predict_audio_score lib (ml_model st) feats)),
              htype = Audio, features = feats, timestamp = now\<rparr>])
   \<and> (feats \<noteq> [] \<longrightarrow>
        video_highlights (process_video lib L now t (Some feats) st) =
          video_highlights st @
            [\<lparr>start_time = t, end_time = t + L,
              score = combined_score (detect_video_highlights feats)
                        (fst (predict_video_score lib (ml_model st) feats)),
              htype = Video, features = feats, timestamp = now\<rparr>])"
proof (intro conjI impI)
  show "combined_score 2 0 = 2" by (simp add: combined_score_def)
  show "combined_score 2 1 = 1.6" by (simp add: combined_score_def)
next
  assume "m > 0"
  then show "combined_score h m = 0.6 * h + 0.4 * m" by (simp add: combined_score_def)
next
  assume "\<not> m > 0"
  then show "combined_score h m = h" by (simp add: combined_score_def)
next
  assume "feats \<noteq> []"
  then show "audio_highlights (process_audio lib L now t (Some feats) st) =
          audio_highlights st @
            [\<lparr>start_time = t, end_time = t + L,
              score = combined_score (detect_audio_highlights feats)
                        (fst (predict_audio_score lib (ml_model st) feats)),
              htype = Audio, features = feats, timestamp = now\<rparr>]"
    by (simp add: process_audio_def Let_def split: prod.split)
next
  assume "feats \<noteq> []"
  then show "video_highlights (process_video lib L now t (Some feats) st) =
          video_highlights st @
            [\<lparr>start_time = t, end_time = t + L,
              score = combined_score (detect_video_highlights feats)
                        (fst (predict_video_score lib (ml_model st) feats)),
              htype = Video, features = feats, timestamp = now\<rparr>]"
    by (simp add: process_video_def Let_def split: prod.split)
qed

theorem combined_score_contract_witness:
  "(0::real) < 1 \<and> combined_score 2 1 = 0.6 * 2 + 0.4 * 1
   \<and> \<not> (0::real) < 0 \<and> combined_score 2 0 = 2
   \<and> [(''rms_mean'', 1::real)] \<noteq> []
   \<and> audio_highlights (process_audio (toy_sklearn never) 45 ''now'' 0 (Some [(''rms_mean'', 1)]) new_stream_state)
       = [\<lparr>start_time = 0, end_time = 45, score = 2, htype = Audio,
           features = [(''rms_mean'', 1)], timestamp = ''now''\<rparr>]
   \<and> video_highlights (process_video (toy_sklearn never) 45 ''now'' 0 (Some [(''motion_mean'', 1)]) new_stream_state)
       = [\<lparr>start_time = 0, end_time = 45, score = 2, htype = Video,
           features = [(''motion_mean'', 1)], timestamp = ''now''\<rparr>]"
  using combined_score_contract [of 1 2 "[(''rms_mean'', 1)]" "toy_sklearn never" 45 "''now''" 0 new_stream_state]
        combined_score_contract [of 0 2 "[(''motion_mean'', 1)]" "toy_sklearn never" 45 "''now''" 0 new_stream_state]
  by (simp add: new_stream_state_def predict_audio_score_def predict_video_score_def load_model_def
        cache_key_of_def detect_audio_highlights_def detect_video_highlights_def dict_get_def
        combined_score_def)

section \<open>Properties of the training from ratings\<close>

lemma get_training_progress_simps:
  "ready_for_training (get_training_progress db file) = (10 \<le> rated_clips db)"
  "progress_rated_clips (get_training_progress db file) = rated_clips db"
  by (simp_all add: get_training_progress_def)

lemma ratings_train_audio_skip:
  "int (length (audio_X t)) < ms \<Longrightarrow> ratings_train_audio lib t ms st = Some st"
  by (simp add: ratings_train_audio_def split: prod.split)

lemma ratings_train_video_skip:
  "int (length (video_X t)) < ms \<Longrightarrow> ratings_train_video lib t ms st = Some st"
  by (simp add: ratings_train_video_def split: prod.split)

lemma ratings_train_audio_keeps_video:
  "ratings_train_audio lib t ms (d, b) = Some (d', b') \<Longrightarrow>
   pk_video_model d' = pk_video_model d \<and> pk_video_scaler d' = pk_video_scaler d
   \<and> pk_video_features d' = pk_video_features d \<and> pk_video_scores d' = pk_video_scores d
   \<and> pk_video_feature_count d' = pk_video_feature_count d"
  by (auto simp: ratings_train_audio_def split: if_splits fit.splits option.splits)

lemma ratings_train_video_keeps_audio:
  "ratings_train_video lib t ms (d, b) = Some (d', b') \<Longrightarrow>
   pk_audio_model d' = pk_audio_model d \<and> pk_audio_scaler d' = pk_audio_scaler d
   \<and> pk_audio_features d' = pk_audio_features d \<and> pk_audio_scores d' = pk_audio_scores d
   \<and> pk_audio_feature_count d' = pk_audio_feature_count d"
  by (auto simp: ratings_train_video_def split: if_splits fit.splits option.splits)

lemma rated_clips_rated_db: "rated_clips (rated_db n) = n"
  by (simp add: rated_clips_def rated_db_def example_clip_def)

lemma get_rated_clips_rated_db:
  "get_rated_clips (rated_db n) = rev (rated_db n)"
proof -
  have "filter (\<lambda>c. rating c \<noteq> None) (rated_db n) = rated_db n"
    by (simp add: rated_db_def example_clip_def)
  moreover have "sort_key created_at (rated_db n) = rated_db n"
    by (rule sort_key_id_if_sorted)
       (simp add: rated_db_def example_clip_def comp_def sorted_wrt_iff_nth_less)
  ultimately show ?thesis by (simp add: get_rated_clips_def)
qed

lemma get_training_data_rated_db:
  "get_training_data (rated_db n) = (replicate n [(''tempo'', 120)], replicate n 3)"
proof -
  have a: "map ClipRecord.features (rev (rated_db n)) = replicate n [(''tempo'', 120)]"
    by (simp add: rated_db_def example_clip_def comp_def rev_map [symmetric] map_replicate_const)
  have b: "map (\<lambda>c. the (rating c)) (rev (rated_db n)) = replicate n 3"
    by (simp add: rated_db_def example_clip_def comp_def rev_map [symmetric] map_replicate_const)
  show ?thesis
    by (simp add: get_training_data_def get_rated_clips_rated_db a b)
qed

lemma extract_tempo: "extract_feature_vector [(''tempo'', 120)] = tempo_vector"
  by (simp add: extract_feature_vector_def feature_keys_def dict_get_def tempo_vector_def)

lemma is_audio_tempo: "is_audio_features [(''tempo'', 120)]"
  by (simp add: is_audio_features_def audio_keys_def)

lemma prepare_loop_tempo:
  "prepare_loop t (replicate n ([(''tempo'', 120)], 3)) =
     t\<lparr>audio_X := audio_X t @ replicate n tempo_vector, audio_y := audio_y t @ replicate n (1/2)\<rparr>"
proof (induction n arbitrary: t)
  case 0
  then show ?case by simp
next
  case (Suc n)
  show ?case
    by (simp add: Suc.IH extract_tempo is_audio_tempo Let_def replicate_app_Cons_same)
qed

lemma prepare_training_data_rated_db:
  "prepare_training_data (rated_db n) =
     \<lparr>audio_X = replicate n tempo_vector, audio_y = replicate n (1/2), video_X = [], video_y = []\<rparr>"
  by (simp add: prepare_training_data_def get_training_data_rated_db zip_replicate prepare_loop_tempo)

lemma shape1_replicate: "0 < n \<Longrightarrow> shape1 (replicate n v) = Some (length v)"
  by (cases n) (simp_all add: shape1_def list_all_iff)

lemma train_rated_db:
  assumes "0 < ms" "ms \<le> int n"
  shows "train_from_ratings (toy_sklearn never) (rated_db n) None ms =
          (True, Some \<lparr>pk_audio_model = Some (replicate n (1/2)),
                       pk_video_model = None,
                       pk_audio_scaler = Some (replicate n tempo_vector),
                       pk_video_scaler = None,
                       pk_audio_features = replicate n tempo_vector,
                       pk_audio_scores = replicate n (1/2),
                       pk_video_features = [],
                       pk_video_scores = [],
                       pk_audio_feature_count = Some 15,
                       pk_video_feature_count = None\<rparr>)"
proof -
  have len: "length tempo_vector = 15" by (simp add: tempo_vector_def)
  from assms have n: "0 < n" by simp
  have a: "ratings_train_audio (toy_sklearn never) (prepare_training_data (rated_db n)) ms
             (load_or_create_model (toy_sklearn never) None, False) =
           Some (\<lparr>pk_audio_model = Some (replicate n (1/2)),
                       pk_video_model = None,
                       pk_audio_scaler = Some (replicate n tempo_vector),
                       pk_video_scaler = None,
                       pk_audio_features = replicate n tempo_vector,
                       pk_audio_scores = replicate n (1/2),
                       pk_video_features = [],
                       pk_video_scores = [],
                       pk_audio_feature_count = Some 15,
                       pk_video_feature_count = None\<rparr>, True)"
    using assms n
    by (simp add: ratings_train_audio_def prepare_training_data_rated_db toy_sklearn_def never_def
          load_or_create_model_def shape1_replicate len)
  have b: "\<And>st. ratings_train_video (toy_sklearn never) (prepare_training_data (rated_db n)) ms st = Some st"
    using assms by (intro ratings_train_video_skip) (simp add: prepare_training_data_rated_db)
  show ?thesis
    by (simp add: train_from_ratings_def Let_def a b)
qed

text \<open>
  Claim C7, as the code has it. The automatic trigger runs the training exactly when
  the number of rated clips is at least 10 and a multiple of 5 (10, 15, 20, ...; not 5, and
  not 6, 11, 16, ...); otherwise it returns False and leaves the model file alone. The
  manual trigger has no cadence test: with at least 10 rated clips it always runs the
  training (with \<^verbatim>\<open>min_samples = 10\<close>). The training fits a modality only if that
  modality has at least \<^verbatim>\<open>min_samples\<close> rated samples: with neither it returns False and
  writes nothing, and a modality below the floor keeps its model, scaler and feature
  count.
\<close>

theorem auto_train_trigger:
  "(\<not> (10 \<le> rated_clips db \<and> rated_clips db mod 5 = 0) \<longrightarrow>
      auto_train_if_ready lib db file ms = (False, file))
   \<and> (10 \<le> rated_clips db \<and> rated_clips db mod 5 = 0 \<longrightarrow>
      auto_train_if_ready lib db file ms = train_from_ratings lib db file ms)
   \<and> (10 \<le> rated_clips db \<longrightarrow>
      snd (manual_train_model lib db file) = snd (train_from_ratings lib db file 10)
      \<and> (fst (manual_train_model lib db file) = TrainingCompleted
            \<longleftrightarrow> fst (train_from_ratings lib db file 10)))
   \<and> (int (length (audio_X (prepare_training_data db))) < ms
       \<and> int (length (video_X (prepare_training_data db))) < ms \<longrightarrow>
      train_from_ratings lib db file ms = (False, file))
   \<and> (int (length (audio_X (prepare_training_data db))) < ms
       \<and> train_from_ratings lib db file ms = (True, Some d) \<longrightarrow>
      pk_audio_model d = pk_audio_model (load_or_create_model lib file)
      \<and> pk_audio_scaler d = pk_audio_scaler (load_or_create_model lib file)
      \<and> pk_audio_feature_count d = pk_audio_feature_count (load_or_create_model lib file))
   \<and> (int (length (video_X (prepare_training_data db))) < ms
       \<and> train_from_ratings lib db file ms = (True, Some d) \<longrightarrow>
      pk_video_model d = pk_video_model (load_or_create_model lib file)
      \<and> pk_video_scaler d = pk_video_scaler (load_or_create_model lib file)
      \<and> pk_video_feature_count d = pk_video_feature_count (load_or_create_model lib file))"
proof (intro conjI impI)
  assume "\<not> (10 \<le> rated_clips db \<and> rated_clips db mod 5 = 0)"
  then show "auto_train_if_ready lib db file ms = (False, file)"
    by (auto simp: auto_train_if_ready_def Let_def get_training_progress_simps)
next
  assume "10 \<le> rated_clips db \<and> rated_clips db mod 5 = 0"
  then show "auto_train_if_ready lib db file ms = train_from_ratings lib db file ms"
    by (simp add: auto_train_if_ready_def Let_def get_training_progress_simps)
next
  assume "10 \<le> rated_clips db"
  then show "snd (manual_train_model lib db file) = snd (train_from_ratings lib db file 10)"
    by (simp add: manual_train_model_def Let_def get_training_progress_simps split: prod.split bool.split)
next
  assume "10 \<le> rated_clips db"
  then show "fst (manual_train_model lib db file) = TrainingCompleted
            \<longleftrightarrow> fst (train_from_ratings lib db file 10)"
    by (simp add: manual_train_model_def Let_def get_training_progress_simps split: prod.split bool.split)
next
  assume "int (length (audio_X (prepare_training_data db))) < ms
       \<and> int (length (video_X (prepare_training_data db))) < ms"
  then show "train_from_ratings lib db file ms = (False, file)"
    by (simp add: train_from_ratings_def Let_def ratings_train_audio_skip ratings_train_video_skip)
next
  assume h: "int (length (audio_X (prepare_training_data db))) < ms
       \<and> train_from_ratings lib db file ms = (True, Some d)"
  then have "\<exists>b. ratings_train_video lib (prepare_training_data db) ms
                    (load_or_create_model lib file, False) = Some (d, b)"
    by (auto simp: train_from_ratings_def Let_def ratings_train_audio_skip
            split: option.splits prod.splits if_splits)
  then obtain b where "ratings_train_video lib (prepare_training_data db) ms
                         (load_or_create_model lib file, False) = Some (d, b)" ..
  from ratings_train_video_keeps_audio [OF this]
  show "pk_audio_model d = pk_audio_model (load_or_create_model lib file)"
       "pk_audio_scaler d = pk_audio_scaler (load_or_create_model lib file)"
       "pk_audio_feature_count d = pk_audio_feature_count (load_or_create_model lib file)"
    by simp_all
next
  assume h: "int (length (video_X (prepare_training_data db))) < ms
       \<and> train_from_ratings lib db file ms = (True, Some d)"
  then have "\<exists>b. ratings_train_audio lib (prepare_training_data db) ms
                    (load_or_create_model lib file, False) = Some (d, b)"
    by (auto simp: train_from_ratings_def Let_def ratings_train_video_skip
            split: option.splits prod.splits if_splits)
  then obtain b where "ratings_train_audio lib (prepare_training_data db) ms
                         (load_or_create_model lib file, False) = Some (d, b)" ..
  from ratings_train_audio_keeps_video [OF this]
  show "pk_video_model d = pk_video_model (load_or_create_model lib file)"
       "pk_video_scaler d = pk_video_scaler (load_or_create_model lib file)"
       "pk_video_feature_count d = pk_video_feature_count (load_or_create_model lib file)"
    by simp_all
qed

text \<open>
  With five rated clips the automatic trigger does not run, although a training with
  \<^verbatim>\<open>min_samples = 5\<close> on the same store succeeds.
\<close>

theorem auto_train_not_at_five:
  "rated_clips (rated_db 5) = 5
   \<and> auto_train_if_ready (toy_sklearn never) (rated_db 5) None 5 = (False, None)
   \<and> fst (train_from_ratings (toy_sklearn never) (rated_db 5) None 5) = True"
  by (simp add: auto_train_if_ready_def get_training_progress_simps rated_clips_rated_db train_rated_db)

lemma prepare_example_db:
  "prepare_training_data example_db =
     \<lparr>audio_X = [], audio_y = [],
      video_X = [[0, 0, 0, 0, 0, 0, 0, 0, 0, 0, 3, 0, 0, 0, 0]], video_y = [1/4]\<rparr>"
  by (simp add: prepare_training_data_def get_training_data_def get_rated_clips_def example_db_def
        example_clip_def extract_feature_vector_def feature_keys_def dict_get_def
        is_audio_features_def audio_keys_def)

lemma train_example_db:
  "\<exists>d. train_from_ratings (toy_sklearn never) example_db None 1 = (True, Some d)"
  by (simp add: train_from_ratings_def prepare_example_db ratings_train_audio_def
        ratings_train_video_def toy_sklearn_def never_def load_or_create_model_def shape1_def)

theorem auto_train_trigger_witness:
  "\<not> (10 \<le> rated_clips (rated_db 11) \<and> rated_clips (rated_db 11) mod 5 = 0)
   \<and> auto_train_if_ready (toy_sklearn never) (rated_db 11) None 10 = (False, None)
   \<and> (10 \<le> rated_clips (rated_db 10) \<and> rated_clips (rated_db 10) mod 5 = 0)
   \<and> fst (auto_train_if_ready (toy_sklearn never) (rated_db 10) None 10) = True
   \<and> 10 \<le> rated_clips (rated_db 11)
   \<and> fst (manual_train_model (toy_sklearn never) (rated_db 11) None) = TrainingCompleted
   \<and> (int (length (audio_X (prepare_training_data (rated_db 5)))) < 10
       \<and> int (length (video_X (prepare_training_data (rated_db 5)))) < 10)
   \<and> train_from_ratings (toy_sklearn never) (rated_db 5) None 10 = (False, None)
   \<and> (\<exists>d. (int (length (audio_X (prepare_training_data example_db))) < 1
            \<and> train_from_ratings (toy_sklearn never) example_db None 1 = (True, Some d))
           \<and> pk_audio_model d = None)
   \<and> (\<exists>d. (int (length (video_X (prepare_training_data (rated_db 5)))) < 5
            \<and> train_from_ratings (toy_sklearn never) (rated_db 5) None 5 = (True, Some d))
           \<and> pk_video_model d = None)"
proof -
  let ?lib = "toy_sklearn never"
  have h1: "\<not> (10 \<le> rated_clips (rated_db 11) \<and> rated_clips (rated_db 11) mod 5 = 0)"
    by (simp add: rated_clips_rated_db)
  note c1 = auto_train_trigger [of "rated_db 11" ?lib None 10, THEN conjunct1, THEN mp, OF h1]
  have h2: "10 \<le> rated_clips (rated_db 10) \<and> rated_clips (rated_db 10) mod 5 = 0"
    by (simp add: rated_clips_rated_db)
  note c2 = auto_train_trigger [of "rated_db 10" ?lib None 10, THEN conjunct2, THEN conjunct1, THEN mp, OF h2]
  have c2': "fst (auto_train_if_ready ?lib (rated_db 10) None 10) = True"
    by (simp add: c2 train_rated_db)
  have h3: "10 \<le> rated_clips (rated_db 11)"
    by (simp add: rated_clips_rated_db)
  note c3 = auto_train_trigger [of "rated_db 11" ?lib None 10, THEN conjunct2, THEN conjunct2,
                                THEN conjunct1, THEN mp, OF h3, THEN conjunct2]
  have c3': "fst (manual_train_model ?lib (rated_db 11) None) = TrainingCompleted"
    by (simp add: c3 train_rated_db)
  have h4: "int (length (audio_X (prepare_training_data (rated_db 5)))) < 10
       \<and> int (length (video_X (prepare_training_data (rated_db 5)))) < 10"
    by (simp add: prepare_training_data_rated_db)
  note c4 = auto_train_trigger [of "rated_db 5" ?lib None 10, THEN conjunct2, THEN conjunct2,
                                THEN conjunct2, THEN conjunct1, THEN mp, OF h4]
  obtain d5 where d5: "train_from_ratings ?lib example_db None 1 = (True, Some d5)"
    using train_example_db by blast
  have h5: "int (length (audio_X (prepare_training_data example_db))) < 1
            \<and> train_from_ratings ?lib example_db None 1 = (True, Some d5)"
    by (simp add: d5 prepare_example_db)
  note c5 = auto_train_trigger [of example_db ?lib None 1 d5, THEN conjunct2, THEN conjunct2,
                                THEN conjunct2, THEN conjunct2, THEN conjunct1, THEN mp, OF h5,
                                THEN conjunct1]
  have c5': "pk_audio_model d5 = None"
    by (simp add: c5 load_or_create_model_def toy_sklearn_def)
  obtain d6 where d6: "train_from_ratings ?lib (rated_db 5) None 5 = (True, Some d6)"
    by (simp add: train_rated_db)
  have h6: "int (length (video_X (prepare_training_data (rated_db 5)))) < 5
            \<and> train_from_ratings ?lib (rated_db 5) None 5 = (True, Some d6)"
    by (simp add: d6 prepare_training_data_rated_db)
  note c6 = auto_train_trigger [of "rated_db 5" ?lib None 5 d6, THEN conjunct2, THEN conjunct2,
                                THEN conjunct2, THEN conjunct2, THEN conjunct2, THEN mp, OF h6,
                                THEN conjunct1]
  have c6': "pk_video_model d6 = None"
    by (simp add: c6 load_or_create_model_def toy_sklearn_def)
  show ?thesis
    using h1 c1 h2 c2' h3 c3' h4 c4 h5 c5' h6 c6' by blast
qed


section \<open>Properties of the chunk scheduler\<close>

lemma upt_filter_shift:
  "map f (filter P [0..<Suc m]) =
     (if P 0 then [f 0] else []) @ map (\<lambda>k. f (Suc k)) (filter (\<lambda>k. P (Suc k)) [0..<m])"
proof -
  have "[0..<Suc m] = 0 # map Suc [0..<m]"
    by (simp add: upt_conv_Cons map_Suc_upt del: upt_Suc)
  then show ?thesis
    by (simp add: filter_map comp_def del: upt_Suc)
qed

lemma chunk_loop_closed:
  assumes step: "0 < chunk_duration p - overlap p"
  shows "chunk_loop p ok e t i acc =
           Some (acc @ map (\<lambda>k. \<lparr>chunk_start = t + real k * (chunk_duration p - overlap p),
                               chunk_end = min (t + real k * (chunk_duration p - overlap p)
                                                  + chunk_duration p) e,
                               chunk_index = i + k\<rparr>)
                          (filter (\<lambda>k. ok (i + k))
                             [0..<nat \<lceil>(e - t) / (chunk_duration p - overlap p)\<rceil>]))"
proof (induction "nat \<lceil>(e - t) / (chunk_duration p - overlap p)\<rceil>" arbitrary: t i acc)
  case 0
  then have "(e - t) / (chunk_duration p - overlap p) \<le> 0"
    by (simp add: ceiling_le_zero)
  with step have "\<not> t < e"
    by (simp add: divide_le_0_iff)
  with 0 show ?case
    by (subst chunk_loop.simps) simp
next
  case (Suc m)
  let ?d = "chunk_duration p - overlap p"
  from Suc.hyps(2) have pos: "0 < (e - t) / ?d"
    by (metis ceiling_le_zero nat_le_0 not_le Zero_not_Suc le_zero_eq)
  with step have lt: "t < e"
    by (simp add: zero_less_divide_iff)
  have "(e - (t + ?d)) / ?d = (e - t) / ?d - 1"
    using step by (simp add: field_simps)
  then have m: "m = nat \<lceil>(e - (t + ?d)) / ?d\<rceil>"
    using Suc.hyps(2) by simp
  have endeq: "min (t + min (chunk_duration p) (e - t)) e = min (t + chunk_duration p) e"
    by (simp add: min_def)
  have shift: "\<And>k. t + ?d + real k * ?d = t + real (Suc k) * ?d"
    by (simp add: algebra_simps)
  have ih: "\<And>acc'. chunk_loop p ok e (t + ?d) (i + 1) acc' =
           Some (acc' @ map (\<lambda>k. \<lparr>chunk_start = t + ?d + real k * ?d,
                               chunk_end = min (t + ?d + real k * ?d + chunk_duration p) e,
                               chunk_index = i + 1 + k\<rparr>)
                          (filter (\<lambda>k. ok (i + 1 + k)) [0..<m]))"
    using Suc.hyps(1) [OF m] by (simp only: m [symmetric])
  have unfold: "chunk_loop p ok e t i acc =
      chunk_loop p ok e (t + ?d) (i + 1)
        (if ok i then acc @ [\<lparr>chunk_start = t, chunk_end = min (t + chunk_duration p) e,
                                chunk_index = i\<rparr>] else acc)"
    by (subst chunk_loop.simps) (simp only: lt if_True endeq)
  show ?case
    by (simp only: unfold ih Suc.hyps(2) [symmetric] upt_filter_shift shift) simp
qed


text \<open>
  Claim C5, as the code has it. Let \<open>s\<close> be the start bound clamped at 0, \<open>e0\<close> the end
  bound clamped at the duration \<open>D\<close>, and \<open>e\<close> the lesser of \<open>e0\<close> and
  \<open>s + MAX_STREAM_DURATION\<close>. For a chunk length \<open>L \<noteq> 0\<close> and an overlap \<open>O < L\<close> the
  generator ends. If \<open>e0 \<le> s\<close> it yields nothing. Otherwise it visits the
  \<open>\<lceil>(e - s) / (L - O)\<rceil>\<close> windows that start at \<open>s + k * (L - O)\<close>, \<open>k = 0, 1, ...\<close>, and
  yields those whose download succeeded, each ending at the lesser of start + \<open>L\<close> and
  \<open>e\<close>: a window has length \<open>L\<close> if it fits before \<open>e\<close> and is cut at \<open>e\<close> if it does
  not, which with a positive overlap can happen to several windows at the end, not only
  to the last one. A range longer than \<open>MAX_STREAM_DURATION\<close> is cut to it.
\<close>

theorem process_stream_chunks_windows:
  assumes "chunk_duration p \<noteq> 0" and "overlap p < chunk_duration p"
  shows "let s = max 0 (case start_minute of Some m \<Rightarrow> m * 60 | None \<Rightarrow> 0);
             e0 = min D (case end_minute of Some m \<Rightarrow> m * 60 | None \<Rightarrow> D);
             e = min e0 (s + MAX_STREAM_DURATION);
             step = chunk_duration p - overlap p
         in (e0 \<le> s \<longrightarrow>
               process_stream_chunks p (Some D) ok start_minute end_minute = Some (Inr []))
          \<and> (s < e0 \<longrightarrow>
               process_stream_chunks p (Some D) ok start_minute end_minute =
                 Some (Inr (map (\<lambda>k. \<lparr>chunk_start = s + real k * step,
                                       chunk_end = min (s + real k * step + chunk_duration p) e,
                                       chunk_index = k\<rparr>)
                                (filter ok [0..<nat \<lceil>(e - s) / step\<rceil>]))))"
proof -
  define s where "s = max 0 (case start_minute of Some m \<Rightarrow> m * 60 | None \<Rightarrow> 0)"
  define e0 where "e0 = min D (case end_minute of Some m \<Rightarrow> m * 60 | None \<Rightarrow> D)"
  define e where "e = min e0 (s + MAX_STREAM_DURATION)"
  have s': "(if (case start_minute of Some m \<Rightarrow> m * 60 | None \<Rightarrow> 0) < 0 then 0
             else (case start_minute of Some m \<Rightarrow> m * 60 | None \<Rightarrow> 0)) = s"
    by (simp add: s_def max_def)
  have e0': "(if (case end_minute of Some m \<Rightarrow> m * 60 | None \<Rightarrow> D) > D then D
              else (case end_minute of Some m \<Rightarrow> m * 60 | None \<Rightarrow> D)) = e0"
    by (simp add: e0_def min_def)
  have unfold: "process_stream_chunks p (Some D) ok start_minute end_minute =
      (if s \<ge> e0 then Some (Inr [])
       else map_option Inr (chunk_loop p ok e s 0 []))"
  proof (cases "MAX_STREAM_DURATION < e0 - s")
    case True
    then have "e = s + MAX_STREAM_DURATION" by (simp add: e_def min_def)
    with True assms(1) show ?thesis
      by (simp add: process_stream_chunks_def Let_def s' e0')
  next
    case False
    then have "e = e0" by (simp add: e_def min_def)
    with False assms(1) show ?thesis
      by (simp add: process_stream_chunks_def Let_def s' e0')
  qed
  have step: "0 < chunk_duration p - overlap p"
    using assms(2) by simp
  have a: "e0 \<le> s \<longrightarrow> process_stream_chunks p (Some D) ok start_minute end_minute = Some (Inr [])"
    by (simp add: unfold)
  have b: "s < e0 \<longrightarrow>
               process_stream_chunks p (Some D) ok start_minute end_minute =
                 Some (Inr (map (\<lambda>k. \<lparr>chunk_start = s + real k * (chunk_duration p - overlap p),
                                       chunk_end = min (s + real k * (chunk_duration p - overlap p)
                                                          + chunk_duration p) e,
                                       chunk_index = k\<rparr>)
                                (filter ok [0..<nat \<lceil>(e - s) / (chunk_duration p - overlap p)\<rceil>])))"
    by (simp add: unfold chunk_loop_closed [OF step])
  from a b show ?thesis
    by (simp only: Let_def s_def [symmetric] e0_def [symmetric] e_def [symmetric]) 
qed

text \<open>
  With the default chunk length 45 and overlap 3 and a stream of 86 seconds, the second
  of the three windows is not the last one and is 44 seconds long.
\<close>

theorem second_window_shortened:
  "process_stream_chunks \<lparr>chunk_duration = 45, overlap = 3\<rparr> (Some 86) (\<lambda>i. True) None None =
     Some (Inr [\<lparr>chunk_start = 0, chunk_end = 45, chunk_index = 0\<rparr>,
                \<lparr>chunk_start = 42, chunk_end = 86, chunk_index = 1\<rparr>,
                \<lparr>chunk_start = 84, chunk_end = 86, chunk_index = 2\<rparr>])
   \<and> (86::real) - 42 \<noteq> 45"
  by (simp add: process_stream_chunks_def MAX_STREAM_DURATION_def chunk_loop.simps)


lemma filter_eq_upt: "filter (\<lambda>i. i = k) [0..<n] = (if k < n then [k] else [])"
  by (induction n) auto

theorem process_stream_chunks_windows_witness:
  "(45::real) \<noteq> 0 \<and> (3::real) < 45
   \<and> process_stream_chunks \<lparr>chunk_duration = 45, overlap = 3\<rparr> (Some 100) (\<lambda>i. True) None None =
       Some (Inr [\<lparr>chunk_start = 0, chunk_end = 45, chunk_index = 0\<rparr>,
                  \<lparr>chunk_start = 42, chunk_end = 87, chunk_index = 1\<rparr>,
                  \<lparr>chunk_start = 84, chunk_end = 100, chunk_index = 2\<rparr>])
   \<and> process_stream_chunks \<lparr>chunk_duration = 45, overlap = 3\<rparr> (Some 100) (\<lambda>i. True) (Some 2) None =
       Some (Inr [])
   \<and> process_stream_chunks \<lparr>chunk_duration = 45, overlap = 3\<rparr> (Some 40000) (\<lambda>i. i = 857) None None =
       Some (Inr [\<lparr>chunk_start = 35994, chunk_end = 36000, chunk_index = 857\<rparr>])"
proof -
  let ?p = "\<lparr>chunk_duration = 45, overlap = 3\<rparr>"
  have h1: "chunk_duration ?p \<noteq> 0" by simp
  have h2: "overlap ?p < chunk_duration ?p" by simp
  note w = process_stream_chunks_windows [OF h1 h2]
  have n3: "nat \<lceil>(100::real) / 42\<rceil> = 3" by simp
  have n858: "nat \<lceil>(36000::real) / 42\<rceil> = 858" by simp
  have l3: "[0..<3] = [0, 1, 2]" by (simp add: upt_rec)
  have a: "process_stream_chunks ?p (Some 100) (\<lambda>i. True) None None =
       Some (Inr [\<lparr>chunk_start = 0, chunk_end = 45, chunk_index = 0\<rparr>,
                  \<lparr>chunk_start = 42, chunk_end = 87, chunk_index = 1\<rparr>,
                  \<lparr>chunk_start = 84, chunk_end = 100, chunk_index = 2\<rparr>])"
    using w [of None 100 None "\<lambda>i. True"]
    by (simp add: Let_def MAX_STREAM_DURATION_def n3 l3)
  have b: "process_stream_chunks ?p (Some 100) (\<lambda>i. True) (Some 2) None = Some (Inr [])"
    using w [of "Some 2" 100 None "\<lambda>i. True"]
    by (simp add: Let_def MAX_STREAM_DURATION_def)
  have c: "process_stream_chunks ?p (Some 40000) (\<lambda>i. i = 857) None None =
       Some (Inr [\<lparr>chunk_start = 35994, chunk_end = 36000, chunk_index = 857\<rparr>])"
    using w [of None 40000 None "\<lambda>i. i = 857"]
    by (simp add: Let_def MAX_STREAM_DURATION_def n858 filter_eq_upt)
  from a b c show ?thesis by simp
qed


section \<open>Properties of the learned model\<close>

lemma add_samples_audio:
  "add_samples s feats sc Audio n =
     s\<lparr>audio_features := audio_features s @ replicate n (dict_to_vector feats),
       audio_scores := audio_scores s @ replicate n sc\<rparr>"
  by (induction n) (simp_all add: add_training_sample_def replicate_append_same)


lemma length_cache_key: "length (cache_key_of feats) = length feats"
  by (simp add: cache_key_of_def)

lemma keys_differ:
  "cache_key_of one_feature \<noteq> cache_key_of two_features"
  "cache_key_of two_features \<noteq> cache_key_of one_feature"
  "cache_key_of three_features \<noteq> cache_key_of one_feature"
  "cache_key_of three_features \<noteq> cache_key_of two_features"
  "cache_key_of one_feature \<noteq> cache_key_of three_features"
  "cache_key_of two_features \<noteq> cache_key_of three_features"
  using length_cache_key [of one_feature] length_cache_key [of two_features]
        length_cache_key [of three_features]
  by (auto simp: one_feature_def two_features_def three_features_def)

lemma new_model:
  "load_model (toy_sklearn never) None =
     \<lparr>audio_model = None, video_model = None, audio_scaler = None, video_scaler = None,
      audio_scaler_fitted = False, video_scaler_fitted = False,
      audio_features = [], audio_scores = [], video_features = [], video_scores = [],
      expected_audio_features = None, expected_video_features = None, cache = Map.empty\<rparr>"
  by (simp add: load_model_def toy_sklearn_def)

lemma first_prediction:
  "snd (predict_audio_score (toy_sklearn never) (load_model (toy_sklearn never) None) one_feature) =
     \<lparr>audio_model = None, video_model = None, audio_scaler = None, video_scaler = None,
      audio_scaler_fitted = False, video_scaler_fitted = False,
      audio_features = [], audio_scores = [], video_features = [], video_scores = [],
      expected_audio_features = None, expected_video_features = None,
      cache = [cache_key_of one_feature \<mapsto> 0]\<rparr>"
  by (simp add: new_model predict_audio_score_def Let_def)

lemma ten_samples:
  "add_samples
     (snd (predict_audio_score (toy_sklearn never) (load_model (toy_sklearn never) None) one_feature))
     two_features 1 Audio 10 =
     \<lparr>audio_model = None, video_model = None, audio_scaler = None, video_scaler = None,
      audio_scaler_fitted = False, video_scaler_fitted = False,
      audio_features = replicate 10 [5, 1], audio_scores = replicate 10 1,
      video_features = [], video_scores = [],
      expected_audio_features = None, expected_video_features = None,
      cache = [cache_key_of one_feature \<mapsto> 0]\<rparr>"
proof -
  have v: "dict_to_vector two_features = [5, 1]"
    by (simp add: dict_to_vector_def two_features_def)
  show ?thesis
    by (simp only: first_prediction add_samples_audio v) simp
qed

lemma trained_session_eq:
  "trained_session =
     \<lparr>audio_model = Some (replicate 10 1),
      video_model = None,
      audio_scaler = Some (replicate 10 [5, 1]),
      video_scaler = None,
      audio_scaler_fitted = True,
      video_scaler_fitted = False,
      audio_features = replicate 10 [5, 1],
      audio_scores = replicate 10 1,
      video_features = [],
      video_scores = [],
      expected_audio_features = Some 2,
      expected_video_features = None,
      cache = [cache_key_of one_feature \<mapsto> 0]\<rparr>"
proof -
  have sh: "shape1 (replicate 10 [5, 1::real]) = Some 2"
    using shape1_replicate [of 10 "[5, 1::real]"] by simp
  have fit: "scaler_fit (toy_sklearn never) None (replicate 10 [5, 1]) = Fitted (Some (replicate 10 [5, 1]))"
    "scaler_transform (toy_sklearn never) (Some (replicate 10 [5, 1])) (replicate 10 [5, 1])
       = Some (replicate 10 [5, 1])"
    "regressor_fit (toy_sklearn never) None (replicate 10 [5, 1]) (replicate 10 1)
       = Fitted (Some (replicate 10 1))"
    by (simp_all add: toy_sklearn_def never_def)
  show ?thesis
    unfolding trained_session_def ten_samples
    by (simp add: retrain_def retrain_audio_def retrain_video_def sh fit)
qed


lemma predict_audio_cached:
  "cache s (cache_key_of feats) = Some v \<Longrightarrow> predict_audio_score lib s feats = (v, s)"
  by (simp add: predict_audio_score_def)

lemma predict_audio_untrained:
  "cache s (cache_key_of feats) = None \<Longrightarrow>
   \<not> audio_scaler_fitted s \<or> length (audio_features s) < 10 \<Longrightarrow>
   predict_audio_score lib s feats = (0, s\<lparr>cache := (cache s)(cache_key_of feats \<mapsto> 0)\<rparr>)"
  by (auto simp: predict_audio_score_def Let_def)

lemma predict_audio_mismatch:
  "cache s (cache_key_of feats) = None \<Longrightarrow> audio_scaler_fitted s \<Longrightarrow>
   10 \<le> length (audio_features s) \<Longrightarrow> expected_audio_features s = Some n \<Longrightarrow>
   length (dict_to_vector feats) \<noteq> n \<Longrightarrow>
   predict_audio_score lib s feats =
     (0, (reset_audio_model lib s)\<lparr>cache := (cache s)(cache_key_of feats \<mapsto> 0)\<rparr>)"
  by (simp add: predict_audio_score_def Let_def reset_audio_model_def)

lemma predict_video_untrained:
  "cache s (cache_key_of feats) = None \<Longrightarrow>
   \<not> video_scaler_fitted s \<or> length (video_features s) < 10 \<Longrightarrow>
   predict_video_score lib s feats = (0, s)"
  by (auto simp: predict_video_score_def Let_def)

lemma predict_video_mismatch:
  "cache s (cache_key_of feats) = None \<Longrightarrow> video_scaler_fitted s \<Longrightarrow>
   10 \<le> length (video_features s) \<Longrightarrow> expected_video_features s = Some n \<Longrightarrow>
   length (dict_to_vector feats) \<noteq> n \<Longrightarrow>
   predict_video_score lib s feats = (0, reset_video_model lib s)"
  by (simp add: predict_video_score_def Let_def)

lemma predict_audio_nonneg:
  assumes "\<forall>v \<in> ran (cache s). 0 \<le> v"
  shows "0 \<le> fst (predict_audio_score lib s feats)"
    and "\<forall>v \<in> ran (cache (snd (predict_audio_score lib s feats))). 0 \<le> v"
  using assms
  by (auto simp: predict_audio_score_def Let_def reset_audio_model_def ran_def
           split: option.splits list.splits if_splits)

text \<open>
  Claim C1. On a cache miss a vector of the wrong length resets a trained model and the
  prediction is 0 (lemmas \<open>predict_audio_mismatch\<close>, \<open>predict_video_mismatch\<close>), and no
  exception leaves the call. But the cache is read before the check and is never cleared,
  not by \<^verbatim>\<open>retrain\<close> and not by a reset. In \<open>trained_session\<close> the model is trained on
  vectors of length 2, with 10 samples; \<open>one_feature\<close> has length 1 and was predicted
  (and cached) before the training. The call returns the cached 0 and the model is not
  reset.
\<close>

theorem stale_cache_skips_reset:
  "audio_scaler_fitted trained_session
   \<and> length (audio_features trained_session) = 10
   \<and> expected_audio_features trained_session = Some 2
   \<and> length (dict_to_vector one_feature) = 1
   \<and> predict_audio_score (toy_sklearn never) trained_session one_feature = (0, trained_session)"
proof -
  have "cache trained_session (cache_key_of one_feature) = Some 0"
    by (simp add: trained_session_eq)
  then have "predict_audio_score (toy_sklearn never) trained_session one_feature = (0, trained_session)"
    by (rule predict_audio_cached)
  then show ?thesis
    by (simp add: trained_session_eq dict_to_vector_def one_feature_def)
qed

theorem stale_cache_skips_reset_witness:
  "fst (predict_audio_score (toy_sklearn never) trained_session one_feature) = 0
   \<and> audio_scaler_fitted (snd (predict_audio_score (toy_sklearn never) trained_session one_feature))
   \<and> expected_audio_features (snd (predict_audio_score (toy_sklearn never) trained_session one_feature))
       = Some 2"
  using stale_cache_skips_reset by simp

lemma second_prediction:
  "predict_audio_score (toy_sklearn never) trained_session two_features =
     (1, trained_session\<lparr>cache := (cache trained_session)(cache_key_of two_features \<mapsto> 1)\<rparr>)"
proof -
  have v: "dict_to_vector two_features = [5, 1]"
    by (simp add: dict_to_vector_def two_features_def)
  have tr: "scaler_transform (toy_sklearn never) (Some (replicate 10 [5, 1])) [[5, 1]] = Some [[5, 1]]"
    using shape1_replicate [of 10 "[5, 1::real]"]
    by (simp add: toy_sklearn_def shape1_def)
  have pr: "regressor_predict (toy_sklearn never) (Some (replicate 10 1)) [[5, 1]] = Some [1]"
    by (simp add: toy_sklearn_def sum_list_replicate)
  show ?thesis
    by (simp add: predict_audio_score_def Let_def trained_session_eq keys_differ v tr pr)
qed

lemma reset_session_eq:
  "reset_session =
     \<lparr>audio_model = None, video_model = None, audio_scaler = None, video_scaler = None,
      audio_scaler_fitted = False, video_scaler_fitted = False,
      audio_features = [], audio_scores = [], video_features = [], video_scores = [],
      expected_audio_features = None, expected_video_features = None,
      cache = [cache_key_of one_feature \<mapsto> 0, cache_key_of two_features \<mapsto> 1,
               cache_key_of three_features \<mapsto> 0]\<rparr>"
proof -
  have v: "length (dict_to_vector three_features) = 3"
    by (simp add: dict_to_vector_def three_features_def)
  have lib: "GradientBoostingRegressor (toy_sklearn never) = None" "StandardScaler (toy_sklearn never) = None"
    by (simp_all add: toy_sklearn_def)
  show ?thesis
    unfolding reset_session_def second_prediction snd_conv
    by (simp add: predict_audio_score_def Let_def trained_session_eq keys_differ v
          reset_audio_model_def lib)
qed

text \<open>
  Claim C4. A prediction is never negative when the cached values are not (lemma
  \<open>predict_audio_nonneg\<close>), and on a cache miss an untrained model or one with fewer than
  10 samples returns 0 without a call of the estimators (lemmas \<open>predict_audio_untrained\<close>,
  \<open>predict_video_untrained\<close>). But a reset leaves the cache as it is. In \<open>reset_session\<close>
  the model has been reset after it had predicted 1 for \<open>two_features\<close>: it is untrained,
  with no sample, and the call for \<open>two_features\<close> returns the cached 1.
\<close>

theorem stale_cache_after_reset:
  "\<not> audio_scaler_fitted reset_session
   \<and> audio_features reset_session = []
   \<and> expected_audio_features reset_session = None
   \<and> predict_audio_score (toy_sklearn never) reset_session two_features = (1, reset_session)"
proof -
  have "cache reset_session (cache_key_of two_features) = Some 1"
    by (simp add: reset_session_eq keys_differ)
  then have "predict_audio_score (toy_sklearn never) reset_session two_features = (1, reset_session)"
    by (rule predict_audio_cached)
  then show ?thesis
    by (simp add: reset_session_eq)
qed

theorem stale_cache_after_reset_witness:
  "fst (predict_audio_score (toy_sklearn never) reset_session two_features) = 1
   \<and> length (audio_features reset_session) < 10"
  using stale_cache_after_reset by simp




lemma retrain_audio_scaler_fit_fails:
  "10 \<le> length (audio_features s) \<Longrightarrow> shape1 (audio_features s) = Some n \<Longrightarrow>
   scaler_fit lib (audio_scaler s) (audio_features s) = Failed sc \<Longrightarrow> fst (retrain_audio lib s)"
  by (simp add: retrain_audio_def Let_def)

lemma retrain_audio_regressor_fit_fails:
  "10 \<le> length (audio_features s) \<Longrightarrow> shape1 (audio_features s) = Some n \<Longrightarrow>
   scaler_fit lib (audio_scaler s) (audio_features s) = Fitted sc \<Longrightarrow>
   scaler_transform lib sc (audio_features s) = Some X \<Longrightarrow>
   regressor_fit lib (audio_model s) X (audio_scores s) = Failed m \<Longrightarrow> fst (retrain_audio lib s)"
  by (simp add: retrain_audio_def Let_def)
































section \<open>Properties of the stream pass\<close>

lemma process_audio_highlights:
  assumes "\<forall>h \<in> set (audio_highlights st). end_time h = start_time h + L"
  shows "\<forall>h \<in> set (audio_highlights (process_audio lib L now t af st)).
           end_time h = start_time h + L"
    and "video_highlights (process_audio lib L now t af st) = video_highlights st"
  using assms
  by (auto simp: process_audio_def Let_def split: option.splits prod.splits)

lemma process_video_highlights:
  assumes "\<forall>h \<in> set (video_highlights st). end_time h = start_time h + L"
  shows "\<forall>h \<in> set (video_highlights (process_video lib L now t vf st)).
           end_time h = start_time h + L"
    and "audio_highlights (process_video lib L now t vf st) = audio_highlights st"
  using assms
  by (auto simp: process_video_def Let_def split: option.splits prod.splits)

lemma process_loop_highlights:
  assumes "\<forall>h \<in> set (audio_highlights st). end_time h = start_time h + L"
      and "\<forall>h \<in> set (video_highlights st). end_time h = start_time h + L"
  shows "(\<forall>h \<in> set (audio_highlights (process_loop lib L world chunks st)).
            end_time h = start_time h + L)
       \<and> (\<forall>h \<in> set (video_highlights (process_loop lib L world chunks st)).
            end_time h = start_time h + L)"
  using assms
proof (induction chunks arbitrary: st)
  case Nil
  then show ?case by simp
next
  case (Cons c chunks)
  let ?w = "world (chunk_index c)"
  let ?st1 = "process_audio lib L (audio_now ?w) (chunk_start c) (audio_feats_of ?w) st"
  let ?st2 = "process_video lib L (video_now ?w) (chunk_start c) (video_feats_of ?w) ?st1"
  have a1: "\<forall>h \<in> set (audio_highlights ?st1). end_time h = start_time h + L"
    using Cons.prems(1) by (rule process_audio_highlights(1))
  have v1: "\<forall>h \<in> set (video_highlights ?st1). end_time h = start_time h + L"
    using Cons.prems by (simp add: process_audio_highlights(2))
  have v2: "\<forall>h \<in> set (video_highlights ?st2). end_time h = start_time h + L"
    using v1 by (rule process_video_highlights(1))
  have a2: "\<forall>h \<in> set (audio_highlights ?st2). end_time h = start_time h + L"
    using a1 v1 by (simp add: process_video_highlights(2))
  from Cons.IH [OF a2 v2] show ?case
    by (simp add: Let_def)
qed

text \<open>
  Claim C9. Every highlight that \<^verbatim>\<open>process_stream\<close> returns ends at its start time plus
  the full chunk duration of the processor, also the one built from the last, shortened
  chunk. In the run of the witness the stream is 100 seconds long: the last chunk is
  yielded with \<^verbatim>\<open>end_time\<close> 100, and its highlight has \<^verbatim>\<open>end_time\<close> 129.
\<close>

theorem candidate_end_time:
  assumes "process_stream lib p min_gap m file info ok world max_audio max_video
             start_minute end_minute = Some (audio, video, m', file')"
  shows "\<forall>h \<in> set audio \<union> set video. end_time h = start_time h + chunk_duration p"
proof (cases "process_stream_chunks p info ok start_minute end_minute")
  case None
  with assms show ?thesis by (simp add: process_stream_def)
next
  case (Some r)
  show ?thesis
  proof (cases r)
    case (Inl e)
    with Some assms show ?thesis by (simp add: process_stream_def)
  next
    case (Inr chunks)
    define st where "st = process_loop lib (chunk_duration p) world chunks
                        \<lparr>ml_model = m, audio_highlights = [], video_highlights = []\<rparr>"
    have inv: "(\<forall>h \<in> set (audio_highlights st). end_time h = start_time h + chunk_duration p)
             \<and> (\<forall>h \<in> set (video_highlights st). end_time h = start_time h + chunk_duration p)"
      unfolding st_def by (rule process_loop_highlights) simp_all
    from assms Some Inr
    have "audio = filter_highlights min_gap (audio_highlights st) 10 (Some (min max_audio MAX_CLIPS_PER_TYPE))"
         "video = filter_highlights min_gap (video_highlights st) 10 (Some (min max_video MAX_CLIPS_PER_TYPE))"
      by (auto simp: process_stream_def Let_def st_def split: prod.splits)
    then have "set audio \<subseteq> set (audio_highlights st)" "set video \<subseteq> set (video_highlights st)"
      by (simp_all add: filter_highlights_subset)
    with inv show ?thesis by blast
  qed
qed

lemma chunks_100:
  "process_stream_chunks default_processor (Some 100) (\<lambda>i. True) None None =
     Some (Inr [\<lparr>chunk_start = 0, chunk_end = 45, chunk_index = 0\<rparr>,
                \<lparr>chunk_start = 42, chunk_end = 87, chunk_index = 1\<rparr>,
                \<lparr>chunk_start = 84, chunk_end = 100, chunk_index = 2\<rparr>])"
  by (simp add: process_stream_chunks_def default_processor_def MAX_STREAM_DURATION_def chunk_loop.simps)


lemma detect_rms: "detect_audio_highlights [(''rms_mean'', x)] = x * 2"
  by (simp add: detect_audio_highlights_def dict_get_def)

lemma key_rms: "cache_key_of [(''rms_mean'', x)] = [(''rms_mean'', x)]"
  by (simp add: cache_key_of_def)

lemma example_loop:
  "\<exists>M. process_loop (toy_sklearn never) 45 example_world
     [\<lparr>chunk_start = 0, chunk_end = 45, chunk_index = 0\<rparr>,
      \<lparr>chunk_start = 42, chunk_end = 87, chunk_index = 1\<rparr>,
      \<lparr>chunk_start = 84, chunk_end = 100, chunk_index = 2\<rparr>]
     \<lparr>ml_model = load_model (toy_sklearn never) None, audio_highlights = [], video_highlights = []\<rparr>
   = \<lparr>ml_model = M,
      audio_highlights =
        [\<lparr>start_time = 0, end_time = 45, score = 2, htype = Audio,
          features = [(''rms_mean'', 1)], timestamp = ''2024-01-01T00:00:00''\<rparr>,
         \<lparr>start_time = 42, end_time = 87, score = 4, htype = Audio,
          features = [(''rms_mean'', 2)], timestamp = ''2024-01-01T00:00:00''\<rparr>,
         \<lparr>start_time = 84, end_time = 129, score = 6, htype = Audio,
          features = [(''rms_mean'', 3)], timestamp = ''2024-01-01T00:00:00''\<rparr>],
      video_highlights = []\<rparr>"
  by (simp add: example_world_def process_audio_def process_video_def load_model_def
      predict_audio_untrained key_rms detect_rms combined_score_def add_training_sample_def
      dict_to_vector_def Let_def)

lemma example_filter:
  "map start_time
     (filter_highlights 10
        [\<lparr>start_time = 0, end_time = 45, score = 2, htype = Audio,
          features = [(''rms_mean'', 1)], timestamp = ''2024-01-01T00:00:00''\<rparr>,
         \<lparr>start_time = 42, end_time = 87, score = 4, htype = Audio,
          features = [(''rms_mean'', 2)], timestamp = ''2024-01-01T00:00:00''\<rparr>,
         \<lparr>start_time = 84, end_time = 129, score = 6, htype = Audio,
          features = [(''rms_mean'', 3)], timestamp = ''2024-01-01T00:00:00''\<rparr>]
        10 (Some 10)) = [0, 42, 84]"
  by (simp add: filter_highlights_def overlap_with_def Let_def)

lemma retrain_few_samples:
  "length (audio_features s) < 10 \<Longrightarrow> length (video_features s) < 10 \<Longrightarrow>
   retrain lib s file = (s, save_model s)"
  by (simp add: retrain_def retrain_audio_def retrain_video_def)

lemma process_stream_unfold:
  assumes "process_stream_chunks p info ok start_minute end_minute = Some (Inr chunks)"
      and "chunk_duration p = L"
      and "process_loop lib L world chunks
             \<lparr>ml_model = m, audio_highlights = [], video_highlights = []\<rparr> = st"
      and "retrain lib (ml_model st) disk = (m', disk')"
  shows "process_stream lib p min_gap m disk info ok world max_audio max_video
           start_minute end_minute =
         Some (filter_highlights min_gap (audio_highlights st) 10 (Some (min max_audio MAX_CLIPS_PER_TYPE)),
               filter_highlights min_gap (video_highlights st) 10 (Some (min max_video MAX_CLIPS_PER_TYPE)),
               m', disk')"
  using assms by (simp add: process_stream_def Let_def)

lemma example_run:
  "\<exists>audio m' file'.
     process_stream (toy_sklearn never) default_processor 10 (load_model (toy_sklearn never) None)
       None (Some 100) (\<lambda>i. True) example_world 10 10 None None = Some (audio, [], m', file')
     \<and> map start_time audio = [0, 42, 84]"
proof -
  have cd: "chunk_duration default_processor = 45"
    by (simp add: default_processor_def)
  obtain M where loop: "process_loop (toy_sklearn never) 45 example_world
     [\<lparr>chunk_start = 0, chunk_end = 45, chunk_index = 0\<rparr>,
      \<lparr>chunk_start = 42, chunk_end = 87, chunk_index = 1\<rparr>,
      \<lparr>chunk_start = 84, chunk_end = 100, chunk_index = 2\<rparr>]
     \<lparr>ml_model = load_model (toy_sklearn never) None, audio_highlights = [], video_highlights = []\<rparr>
   = \<lparr>ml_model = M,
      audio_highlights =
        [\<lparr>start_time = 0, end_time = 45, score = 2, htype = Audio,
          features = [(''rms_mean'', 1)], timestamp = ''2024-01-01T00:00:00''\<rparr>,
         \<lparr>start_time = 42, end_time = 87, score = 4, htype = Audio,
          features = [(''rms_mean'', 2)], timestamp = ''2024-01-01T00:00:00''\<rparr>,
         \<lparr>start_time = 84, end_time = 129, score = 6, htype = Audio,
          features = [(''rms_mean'', 3)], timestamp = ''2024-01-01T00:00:00''\<rparr>],
      video_highlights = []\<rparr>"
    using example_loop by blast
  obtain m' file' where rt: "retrain (toy_sklearn never) M None = (m', file')"
    by (cases "retrain (toy_sklearn never) M None") blast
  have rt': "retrain (toy_sklearn never)
      (ml_model \<lparr>ml_model = M,
      audio_highlights =
        [\<lparr>start_time = 0, end_time = 45, score = 2, htype = Audio,
          features = [(''rms_mean'', 1)], timestamp = ''2024-01-01T00:00:00''\<rparr>,
         \<lparr>start_time = 42, end_time = 87, score = 4, htype = Audio,
          features = [(''rms_mean'', 2)], timestamp = ''2024-01-01T00:00:00''\<rparr>,
         \<lparr>start_time = 84, end_time = 129, score = 6, htype = Audio,
          features = [(''rms_mean'', 3)], timestamp = ''2024-01-01T00:00:00''\<rparr>],
      video_highlights = []\<rparr>) None = (m', file')"
    by (simp only: stream_state.simps rt)
  have ten: "min (10::int) MAX_CLIPS_PER_TYPE = 10"
    by (simp add: MAX_CLIPS_PER_TYPE_def)
  have empty: "filter_highlights 10 [] 10 (Some 10) = []"
    by (simp add: filter_highlights_def)
  note run = process_stream_unfold [OF chunks_100 cd loop rt', where min_gap = 10 and max_audio = 10
                                     and max_video = 10]
  have run': "process_stream (toy_sklearn never) default_processor 10 (load_model (toy_sklearn never) None)
       None (Some 100) (\<lambda>i. True) example_world 10 10 None None =
       Some (filter_highlights 10
        [\<lparr>start_time = 0, end_time = 45, score = 2, htype = Audio,
          features = [(''rms_mean'', 1)], timestamp = ''2024-01-01T00:00:00''\<rparr>,
         \<lparr>start_time = 42, end_time = 87, score = 4, htype = Audio,
          features = [(''rms_mean'', 2)], timestamp = ''2024-01-01T00:00:00''\<rparr>,
         \<lparr>start_time = 84, end_time = 129, score = 6, htype = Audio,
          features = [(''rms_mean'', 3)], timestamp = ''2024-01-01T00:00:00''\<rparr>]
        10 (Some 10), [], m', file')"
    using run by (simp only: stream_state.simps ten empty)
  show ?thesis
    by (intro exI conjI) (rule run', rule example_filter)
qed

theorem candidate_end_time_witness:
  "\<exists>audio video m' file'.
     process_stream (toy_sklearn never) default_processor 10 (load_model (toy_sklearn never) None)
       None (Some 100) (\<lambda>i. True) example_world 10 10 None None = Some (audio, video, m', file')
     \<and> map start_time audio = [0, 42, 84]
     \<and> map end_time audio = [45, 87, 129]
     \<and> process_stream_chunks default_processor (Some 100) (\<lambda>i. True) None None =
         Some (Inr [\<lparr>chunk_start = 0, chunk_end = 45, chunk_index = 0\<rparr>,
                    \<lparr>chunk_start = 42, chunk_end = 87, chunk_index = 1\<rparr>,
                    \<lparr>chunk_start = 84, chunk_end = 100, chunk_index = 2\<rparr>])"
proof -
  obtain audio m' file' where
    run: "process_stream (toy_sklearn never) default_processor 10 (load_model (toy_sklearn never) None)
            None (Some 100) (\<lambda>i. True) example_world 10 10 None None = Some (audio, [], m', file')"
    and starts: "map start_time audio = [0, 42, 84]"
    using example_run by (elim exE conjE)
  from candidate_end_time [OF run]
  have "\<forall>h \<in> set audio. end_time h = start_time h + 45"
    by (simp add: default_processor_def)
  then have "map end_time audio = map (\<lambda>t. t + 45) (map start_time audio)"
    by simp
  then have ends: "map end_time audio = [45, 87, 129]"
    by (simp add: starts)
  show ?thesis
    by (intro exI conjI) (rule run, rule starts, rule ends, rule chunks_100)
qed

end
